theory Spec2Isabelle
  imports Complex_Main
begin

section \<open>The bank system: record store, identity service and ledger service\<close>

text \<open>
  A shallow embedding of \<^verbatim>\<open>src/bank_system.py\<close>: the three tables of
  \<^verbatim>\<open>DatabaseManager.init_database\<close>, the store calls that
  \<^verbatim>\<open>UserService\<close> and \<^verbatim>\<open>BankService\<close> issue, and the
  methods \<^verbatim>\<open>register_user\<close>, \<^verbatim>\<open>authenticate\<close>,
  \<^verbatim>\<open>create_account\<close>, \<^verbatim>\<open>deposit\<close>, \<^verbatim>\<open>withdraw\<close>
  and \<^verbatim>\<open>transfer\<close>.

  Modelling decisions.
  \<^item> Amounts are Python floats and the \<^verbatim>\<open>REAL\<close> columns hold SQLite
    reals: IEEE 754 binary64 values. Every sum and difference of the source is rounded
    to the nearest double, ties to even; comparisons with NaN are false; SQLite stores
    NaN as \<^verbatim>\<open>NULL\<close>, and Python reads \<^verbatim>\<open>NULL\<close> as
    \<^verbatim>\<open>None\<close>, on which \<^verbatim>\<open>+\<close> raises
    \<^verbatim>\<open>TypeError\<close>. The terminal layer passes every amount through
    \<^verbatim>\<open>float(...)\<close>; an integer amount that is a double (the literals of
    \<^verbatim>\<open>create_sample_data\<close>) behaves as the double of the same value, other
    integers are not amounts of the model.
  \<^item> Every call of \<^verbatim>\<open>execute_query\<close> or \<^verbatim>\<open>fetch_all_dict\<close>
    opens its own connection and commits on its own, and any of them may raise
    \<^verbatim>\<open>sqlite3.Error\<close>. The world is the store together with a fault schedule, a
    list of booleans: each store call consumes the head, and \<open>True\<close> means that this
    call raises. An empty schedule means that no further call fails.
  \<^item> The readings of \<^verbatim>\<open>datetime.now()\<close> and of
    \<^verbatim>\<open>random.randint\<close> are parameters of the method that takes them.
  \<^item> \<^verbatim>\<open>hashlib.sha256(...).hexdigest()\<close> is a parameter \<open>H\<close> of the
    identity service.
  \<^item> The methods return \<^verbatim>\<open>(False, message)\<close> or
    \<^verbatim>\<open>(True, message)\<close>; the model returns \<open>Inl\<close> of an error kind
    that stands for the message, or \<open>Inr\<close> of the value the message reports.
\<close>

subsection \<open>Python floats and SQLite reals\<close>

text \<open>
  A double is NaN, an infinity, or a finite value, given by the real number it stands
  for (the two zeros are one value: they compare equal and add alike). The finite
  doubles are the reals \<open>m * 2 ^ q\<close> with \<open>\<bar>m\<bar> < 2 ^ 53\<close> and
  \<open>- 1074 \<le> q \<le> 971\<close>.
\<close>

datatype double = NaN | NInf | Finite real | PInf

definition pow2 :: "int \<Rightarrow> real" where
  "pow2 k = (if 0 \<le> k then 2 ^ nat k else 1 / 2 ^ nat (- k))"

text \<open>
  \<open>floor_log2 n x\<close> is the integer \<open>e\<close> with \<open>2 ^ e \<le> x < 2 ^ (e + 1)\<close>, for
  positive \<open>x\<close>, found in at most \<open>n\<close> halvings or doublings.
\<close>

fun floor_log2 :: "nat \<Rightarrow> real \<Rightarrow> int" where
  "floor_log2 n x =
     (if n = 0 then 0
      else if 2 \<le> x then floor_log2 (n - 1) (x / 2) + 1
      else if x < 1 then floor_log2 (n - 1) (x * 2) - 1
      else 0)"

declare floor_log2.simps [simp del]

definition round_half_even :: "real \<Rightarrow> int" where
  "round_half_even y =
     (let f = \<lfloor>y\<rfloor>; d = y - of_int f
      in if d < 1 / 2 then f else if 1 / 2 < d then f + 1 else if even f then f else f + 1)"

text \<open>
  Rounding of an exact result to binary64, to nearest with ties to even: 53 significant
  bits, the quantum not below \<open>2 ^ - 1074\<close> (subnormal numbers), an infinity from
  \<open>2 ^ 1024\<close> on.
\<close>

definition rnd :: "real \<Rightarrow> double" where
  "rnd x =
     (if x = 0 then Finite 0
      else
        let q = max (floor_log2 2200 \<bar>x\<bar> - 52) (- 1074);
            v = of_int (round_half_even (x / pow2 q)) * pow2 q
        in if 2 ^ 1024 \<le> v then PInf else if v \<le> - (2 ^ 1024) then NInf else Finite v)"

text \<open>Python's and SQLite's \<^verbatim>\<open>+\<close> and \<^verbatim>\<open>-\<close> on doubles.\<close>

fun fadd :: "double \<Rightarrow> double \<Rightarrow> double" where
  "fadd NaN b = NaN"
| "fadd a NaN = NaN"
| "fadd PInf NInf = NaN"
| "fadd NInf PInf = NaN"
| "fadd PInf b = PInf"
| "fadd a PInf = PInf"
| "fadd NInf b = NInf"
| "fadd a NInf = NInf"
| "fadd (Finite x) (Finite y) = rnd (x + y)"

fun fsub :: "double \<Rightarrow> double \<Rightarrow> double" where
  "fsub NaN b = NaN"
| "fsub a NaN = NaN"
| "fsub PInf PInf = NaN"
| "fsub NInf NInf = NaN"
| "fsub PInf b = PInf"
| "fsub a NInf = PInf"
| "fsub NInf b = NInf"
| "fsub a PInf = NInf"
| "fsub (Finite x) (Finite y) = rnd (x - y)"

text \<open>Python's \<^verbatim>\<open><=\<close> and \<^verbatim>\<open><\<close> on floats: false when a side is NaN.\<close>

fun fle :: "double \<Rightarrow> double \<Rightarrow> bool" where
  "fle NaN b = False"
| "fle a NaN = False"
| "fle NInf b = True"
| "fle a PInf = True"
| "fle PInf b = False"
| "fle a NInf = False"
| "fle (Finite x) (Finite y) = (x \<le> y)"

fun flt :: "double \<Rightarrow> double \<Rightarrow> bool" where
  "flt NaN b = False"
| "flt a NaN = False"
| "flt PInf b = False"
| "flt a NInf = False"
| "flt NInf b = True"
| "flt a PInf = True"
| "flt (Finite x) (Finite y) = (x < y)"

text \<open>
  A value of a \<^verbatim>\<open>REAL\<close> column is \<^verbatim>\<open>NULL\<close> (\<open>None\<close>) or a double
  that is not NaN. \<open>bind_real\<close> is the binding of a Python float to a parameter of a
  statement, and the storing of the result of an expression: NaN becomes
  \<^verbatim>\<open>NULL\<close>. \<open>sql_add\<close> and \<open>sql_sub\<close> are SQLite's \<^verbatim>\<open>+\<close> and
  \<^verbatim>\<open>-\<close>: \<^verbatim>\<open>NULL\<close> when an operand is \<^verbatim>\<open>NULL\<close>.
\<close>

definition bind_real :: "double \<Rightarrow> double option" where
  "bind_real x = (if x = NaN then None else Some x)"

definition sql_add :: "double option \<Rightarrow> double option \<Rightarrow> double option" where
  "sql_add a b = (case (a, b) of (Some x, Some y) \<Rightarrow> bind_real (fadd x y) | _ \<Rightarrow> None)"

definition sql_sub :: "double option \<Rightarrow> double option \<Rightarrow> double option" where
  "sql_sub a b = (case (a, b) of (Some x, Some y) \<Rightarrow> bind_real (fsub x y) | _ \<Rightarrow> None)"

subsection \<open>Rows and tables\<close>

text \<open>The keys of the dictionary \<^verbatim>\<open>user_data\<close>, and the columns of \<^verbatim>\<open>users\<close>.\<close>

record profile =
  first_name :: string
  last_name :: string
  date_of_birth :: string
  street :: string
  city :: string
  zip_code :: string
  country :: string
  phone_number :: string
  email :: string
  username :: string

record user_data = profile +
  password :: string

record user = profile +
  uid :: int
  password_hash :: string

text \<open>
  A row of \<^verbatim>\<open>accounts\<close>. The column \<^verbatim>\<open>account_number\<close> is the
  primary key: the table is a map from account numbers to the other columns. The columns
  \<^verbatim>\<open>balance\<close> and \<^verbatim>\<open>overdraft_limit\<close> are not declared
  \<^verbatim>\<open>NOT NULL\<close>.
\<close>

record account =
  user_id :: int
  account_type :: string
  currency :: string
  balance :: "double option"
  overdraft_limit :: "double option"
  created_date :: string

record transaction_row =
  tid :: int
  account_number :: string
  transaction_type :: string
  amount :: double
  description :: string
  timestamp :: string

text \<open>
  The database file. \<open>users_seq\<close> and \<open>transactions_seq\<close> are the
  \<^verbatim>\<open>AUTOINCREMENT\<close> counters of the two tables.
\<close>

record store =
  users :: "user list"
  users_seq :: int
  accounts :: "string \<rightharpoonup> account"
  transactions :: "transaction_row list"
  transactions_seq :: int

type_synonym world = "store \<times> bool list"

definition empty_store :: store where
  "empty_store = \<lparr>users = [], users_seq = 0, accounts = Map.empty,
     transactions = [], transactions_seq = 0\<rparr>"

subsection \<open>Results\<close>

text \<open>
  What a store call, or a method without \<^verbatim>\<open>try\<close>, does: raise
  \<^verbatim>\<open>sqlite3.Error\<close> or return.
\<close>

datatype 'a attempt = Raised | Returned 'a

text \<open>
  What \<^verbatim>\<open>withdraw\<close> and \<^verbatim>\<open>transfer\<close> do: return their pair,
  or let the \<^verbatim>\<open>TypeError\<close> of \<^verbatim>\<open>None + float\<close> escape (their
  \<^verbatim>\<open>except\<close> clause catches \<^verbatim>\<open>sqlite3.Error\<close> only).
\<close>

datatype 'a outcome = TypeError | Returns 'a

text \<open>The method whose \<^verbatim>\<open>except sqlite3.Error\<close> clause produced a message.\<close>

datatype origin = InRegister | InCreateAccount | InDeposit | InWithdraw | InTransfer

text \<open>
  The messages of the source, by kind. \<open>AccountNotFound\<close> is the message of
  \<^verbatim>\<open>deposit\<close> and \<^verbatim>\<open>withdraw\<close> for a missing account,
  \<open>SourceNotFound\<close> and \<open>DestinationNotFound\<close> those of \<^verbatim>\<open>transfer\<close>
  (they quote the account number), \<open>InsufficientFunds\<close> carries the available amount
  the message prints, \<open>TransferFailed\<close> is the message after a failed deposit of a
  transfer.
\<close>

datatype error =
    InvalidAmount
  | AccountNotFound
  | SourceNotFound string
  | DestinationNotFound string
  | CurrencyMismatch
  | InsufficientFunds double
  | UsernameTaken
  | TransferFailed
  | StorageError origin

subsection \<open>Store calls\<close>

definition raises :: "bool list \<Rightarrow> bool" where
  "raises fs = (case fs of [] \<Rightarrow> False | f # _ \<Rightarrow> f)"

text \<open>\<^verbatim>\<open>SELECT id FROM users WHERE username = ?\<close>, \<^verbatim>\<open>fetchone\<close>.\<close>

definition select_user :: "string \<Rightarrow> world \<Rightarrow> user option attempt \<times> world" where
  "select_user name w =
     (case w of (s, fs) \<Rightarrow>
        if raises fs then (Raised, (s, tl fs))
        else (Returned (find (\<lambda>u. username u = name) (users s)), (s, tl fs)))"

text \<open>
  \<^verbatim>\<open>INSERT INTO users (...) VALUES (...)\<close>; returns \<^verbatim>\<open>lastrowid\<close>.
  The column \<^verbatim>\<open>username\<close> is \<^verbatim>\<open>UNIQUE\<close>: a second row with the
  same username is an integrity error.
\<close>

definition insert_user :: "user_data \<Rightarrow> string \<Rightarrow> world \<Rightarrow> int attempt \<times> world" where
  "insert_user d h w =
     (case w of (s, fs) \<Rightarrow>
        if raises fs \<or> find (\<lambda>u. username u = username d) (users s) \<noteq> None
        then (Raised, (s, tl fs))
        else
          let i = users_seq s + 1;
              row = \<lparr>first_name = first_name d, last_name = last_name d,
                     date_of_birth = date_of_birth d, street = street d, city = city d,
                     zip_code = zip_code d, country = country d,
                     phone_number = phone_number d, email = email d,
                     username = username d, uid = i, password_hash = h\<rparr>
          in (Returned i, (s\<lparr>users := users s @ [row], users_seq := i\<rparr>, tl fs)))"

text \<open>
  \<^verbatim>\<open>INSERT INTO accounts (...) VALUES (...)\<close>. The account number is the
  primary key: inserting an existing one is an integrity error.
\<close>

definition insert_account :: "string \<Rightarrow> account \<Rightarrow> world \<Rightarrow> unit attempt \<times> world" where
  "insert_account n a w =
     (case w of (s, fs) \<Rightarrow>
        if raises fs \<or> accounts s n \<noteq> None then (Raised, (s, tl fs))
        else (Returned (), (s\<lparr>accounts := (accounts s)(n \<mapsto> a)\<rparr>, tl fs)))"

text \<open>
  \<^verbatim>\<open>UPDATE accounts SET balance = balance + ? WHERE account_number = ?\<close> (and
  the same with \<^verbatim>\<open>-\<close>): \<open>f\<close> is the new value of the column as a function of
  the stored one.
\<close>

definition update_balance :: "(double option \<Rightarrow> double option) \<Rightarrow> string \<Rightarrow> world \<Rightarrow> unit attempt \<times> world" where
  "update_balance f n w =
     (case w of (s, fs) \<Rightarrow>
        if raises fs then (Raised, (s, tl fs))
        else (Returned (),
          (case accounts s n of
             None \<Rightarrow> s
           | Some a \<Rightarrow> s\<lparr>accounts := (accounts s)(n \<mapsto> a\<lparr>balance := f (balance a)\<rparr>)\<rparr>,
           tl fs)))"

text \<open>
  \<^verbatim>\<open>INSERT INTO transactions (...) VALUES (?, 'DEPOSIT' | 'WITHDRAWAL', ?, ?, ?)\<close>.
  The column \<^verbatim>\<open>amount\<close> is \<^verbatim>\<open>NOT NULL\<close>: a NaN amount, bound
  as \<^verbatim>\<open>NULL\<close>, is an integrity error.
\<close>

definition insert_transaction ::
  "string \<Rightarrow> string \<Rightarrow> double \<Rightarrow> string \<Rightarrow> string \<Rightarrow> world \<Rightarrow> unit attempt \<times> world" where
  "insert_transaction n ty x d ts w =
     (case w of (s, fs) \<Rightarrow>
        if raises fs \<or> bind_real x = None then (Raised, (s, tl fs))
        else
          let i = transactions_seq s + 1;
              row = \<lparr>tid = i, account_number = n, transaction_type = ty, amount = x,
                     description = d, timestamp = ts\<rparr>
          in (Returned (),
              (s\<lparr>transactions := transactions s @ [row], transactions_seq := i\<rparr>, tl fs)))"

subsection \<open>UserService\<close>

text \<open>
  \<^verbatim>\<open>register_user\<close>: the result on success is the new user's id (the
  source's message quotes it).
\<close>

definition register_user ::
  "(string \<Rightarrow> string) \<Rightarrow> user_data \<Rightarrow> world \<Rightarrow> (error + int) \<times> world" where
  "register_user H d w =
     (case select_user (username d) w of
        (Raised, w1) \<Rightarrow> (Inl (StorageError InRegister), w1)
      | (Returned (Some existing), w1) \<Rightarrow> (Inl UsernameTaken, w1)
      | (Returned None, w1) \<Rightarrow>
          (let password_hash = H (password d) in
           case insert_user d password_hash w1 of
             (Raised, w2) \<Rightarrow> (Inl (StorageError InRegister), w2)
           | (Returned i, w2) \<Rightarrow> (Inr i, w2)))"



subsection \<open>BankService\<close>

definition digits :: string where
  "digits = ''0123456789''"

fun str_nat :: "nat \<Rightarrow> string" where
  "str_nat n = (if n < 10 then [digits ! n] else str_nat (n div 10) @ [digits ! (n mod 10)])"

declare str_nat.simps [simp del]

text \<open>\<open>r\<close> is the value of \<^verbatim>\<open>random.randint(10000000, 99999999)\<close>.\<close>

definition generate_account_number :: "nat \<Rightarrow> string" where
  "generate_account_number r = ''40817810'' @ str_nat r"

text \<open>
  \<^verbatim>\<open>create_account\<close>: the result on success is the account number (the
  source's message quotes it). The balance is the literal \<^verbatim>\<open>0\<close>, the
  overdraft limit is bound as it is given.
\<close>

definition create_account ::
  "nat \<Rightarrow> int \<Rightarrow> string \<Rightarrow> string \<Rightarrow> double \<Rightarrow> string \<Rightarrow> world \<Rightarrow> (error + string) \<times> world" where
  "create_account r uid' ty cur od now w =
     (let n = generate_account_number r in
      case insert_account n
             \<lparr>user_id = uid', account_type = ty, currency = cur, balance = Some (Finite 0),
              overdraft_limit = bind_real od, created_date = now\<rparr> w of
        (Raised, w1) \<Rightarrow> (Inl (StorageError InCreateAccount), w1)
      | (Returned _, w1) \<Rightarrow> (Inr n, w1))"

text \<open>\<^verbatim>\<open>get_account\<close>: \<^verbatim>\<open>SELECT * FROM accounts WHERE account_number = ?\<close>.\<close>

definition get_account :: "string \<Rightarrow> world \<Rightarrow> account option attempt \<times> world" where
  "get_account n w =
     (case w of (s, fs) \<Rightarrow>
        if raises fs then (Raised, (s, tl fs)) else (Returned (accounts s n), (s, tl fs)))"

text \<open>
  \<^verbatim>\<open>deposit\<close>. The test is \<^verbatim>\<open>amount <= 0\<close>, the update adds the
  bound amount to the stored balance.
\<close>

definition deposit ::
  "string \<Rightarrow> double \<Rightarrow> string \<Rightarrow> string \<Rightarrow> world \<Rightarrow> (error + unit) \<times> world" where
  "deposit n x d now w =
     (if fle x (Finite 0) then (Inl InvalidAmount, w)
      else
        case get_account n w of
          (Raised, w1) \<Rightarrow> (Inl (StorageError InDeposit), w1)
        | (Returned None, w1) \<Rightarrow> (Inl AccountNotFound, w1)
        | (Returned (Some acc), w1) \<Rightarrow>
            (case update_balance (\<lambda>b. sql_add b (bind_real x)) n w1 of
               (Raised, w2) \<Rightarrow> (Inl (StorageError InDeposit), w2)
             | (Returned _, w2) \<Rightarrow>
                 (case insert_transaction n ''DEPOSIT'' x d now w2 of
                    (Raised, w3) \<Rightarrow> (Inl (StorageError InDeposit), w3)
                  | (Returned _, w3) \<Rightarrow> (Inr (), w3))))"

text \<open>
  \<^verbatim>\<open>withdraw\<close>. The available amount is Python's sum of the two columns of
  the row that was read; the tests are \<^verbatim>\<open>amount <= 0\<close> and
  \<^verbatim>\<open>amount > available\<close>.
\<close>

definition withdraw ::
  "string \<Rightarrow> double \<Rightarrow> string \<Rightarrow> string \<Rightarrow> world \<Rightarrow> (error + unit) outcome \<times> world" where
  "withdraw n x d now w =
     (if fle x (Finite 0) then (Returns (Inl InvalidAmount), w)
      else
        case get_account n w of
          (Raised, w1) \<Rightarrow> (Returns (Inl (StorageError InWithdraw)), w1)
        | (Returned None, w1) \<Rightarrow> (Returns (Inl AccountNotFound), w1)
        | (Returned (Some acc), w1) \<Rightarrow>
            (case (balance acc, overdraft_limit acc) of
               (Some b, Some od) \<Rightarrow>
                 (let available = fadd b od in
                  if flt available x then (Returns (Inl (InsufficientFunds available)), w1)
                  else
                    (case update_balance (\<lambda>b. sql_sub b (bind_real x)) n w1 of
                       (Raised, w2) \<Rightarrow> (Returns (Inl (StorageError InWithdraw)), w2)
                     | (Returned _, w2) \<Rightarrow>
                         (case insert_transaction n ''WITHDRAWAL'' x d now w2 of
                            (Raised, w3) \<Rightarrow> (Returns (Inl (StorageError InWithdraw)), w3)
                          | (Returned _, w3) \<Rightarrow> (Returns (Inr ()), w3))))
             | _ \<Rightarrow> (TypeError, w1)))"

text \<open>
  The literals of the descriptions that \<^verbatim>\<open>transfer\<close> writes, as the bytes of
  their UTF-8 encoding: "transfer to account ", "transfer from account " and
  "rollback of the transfer".
\<close>

definition transfer_to_text :: string where
  "transfer_to_text =
     [CHR 0xD0, CHR 0x9F, CHR 0xD0, CHR 0xB5, CHR 0xD1, CHR 0x80, CHR 0xD0, CHR 0xB5,
      CHR 0xD0, CHR 0xB2, CHR 0xD0, CHR 0xBE, CHR 0xD0, CHR 0xB4, CHR '' '', CHR 0xD0,
      CHR 0xBD, CHR 0xD0, CHR 0xB0, CHR '' '', CHR 0xD1, CHR 0x81, CHR 0xD1, CHR 0x87,
      CHR 0xD0, CHR 0xB5, CHR 0xD1, CHR 0x82, CHR '' '']"

definition transfer_from_text :: string where
  "transfer_from_text =
     [CHR 0xD0, CHR 0x9F, CHR 0xD0, CHR 0xB5, CHR 0xD1, CHR 0x80, CHR 0xD0, CHR 0xB5,
      CHR 0xD0, CHR 0xB2, CHR 0xD0, CHR 0xBE, CHR 0xD0, CHR 0xB4, CHR '' '', CHR 0xD1,
      CHR 0x81, CHR 0xD0, CHR 0xBE, CHR '' '', CHR 0xD1, CHR 0x81, CHR 0xD1, CHR 0x87,
      CHR 0xD0, CHR 0xB5, CHR 0xD1, CHR 0x82, CHR 0xD0, CHR 0xB0, CHR '' '']"

definition rollback_text :: string where
  "rollback_text =
     [CHR 0xD0, CHR 0x9E, CHR 0xD1, CHR 0x82, CHR 0xD0, CHR 0xBA, CHR 0xD0, CHR 0xB0,
      CHR 0xD1, CHR 0x82, CHR '' '', CHR 0xD0, CHR 0xBF, CHR 0xD0, CHR 0xB5, CHR 0xD1,
      CHR 0x80, CHR 0xD0, CHR 0xB5, CHR 0xD0, CHR 0xB2, CHR 0xD0, CHR 0xBE, CHR 0xD0,
      CHR 0xB4, CHR 0xD0, CHR 0xB0]"

text \<open>
  \<^verbatim>\<open>transfer\<close>. \<open>t1\<close>, \<open>t2\<close> and \<open>t3\<close> are the clock readings of the
  withdrawal, of the deposit and of the rollback. Both accounts are read before either
  is tested. The result of the rollback deposit is dropped, as in the source.
\<close>

definition transfer ::
  "string \<Rightarrow> string \<Rightarrow> double \<Rightarrow> string \<Rightarrow> string \<Rightarrow> string \<Rightarrow> string \<Rightarrow> world
     \<Rightarrow> (error + unit) outcome \<times> world" where
  "transfer from_account to_account x d t1 t2 t3 w =
     (if fle x (Finite 0) then (Returns (Inl InvalidAmount), w)
      else
        case get_account from_account w of
          (Raised, w1) \<Rightarrow> (Returns (Inl (StorageError InTransfer)), w1)
        | (Returned from_acc, w1) \<Rightarrow>
            (case get_account to_account w1 of
               (Raised, w2) \<Rightarrow> (Returns (Inl (StorageError InTransfer)), w2)
             | (Returned to_acc, w2) \<Rightarrow>
                 (case from_acc of
                    None \<Rightarrow> (Returns (Inl (SourceNotFound from_account)), w2)
                  | Some fa \<Rightarrow>
                      (case to_acc of
                         None \<Rightarrow> (Returns (Inl (DestinationNotFound to_account)), w2)
                       | Some ta \<Rightarrow>
                           if currency fa \<noteq> currency ta
                           then (Returns (Inl CurrencyMismatch), w2)
                           else
                             (case (balance fa, overdraft_limit fa) of
                                (Some b, Some od) \<Rightarrow>
                                  (let available = fadd b od in
                                   if flt available x
                                   then (Returns (Inl (InsufficientFunds available)), w2)
                                   else
                                     (case withdraw from_account x
                                             (transfer_to_text @ to_account @ ''. '' @ d)
                                             t1 w2 of
                                        (TypeError, w3) \<Rightarrow> (TypeError, w3)
                                      | (Returns (Inl e), w3) \<Rightarrow> (Returns (Inl e), w3)
                                      | (Returns (Inr _), w3) \<Rightarrow>
                                          (case deposit to_account x
                                                  (transfer_from_text @ from_account @ ''. '' @ d)
                                                  t2 w3 of
                                             (Inr _, w4) \<Rightarrow> (Returns (Inr ()), w4)
                                           | (Inl _, w4) \<Rightarrow>
                                               (case deposit from_account x rollback_text
                                                       t3 w4 of
                                                  (_, w5) \<Rightarrow>
                                                    (Returns (Inl TransferFailed), w5)))))
                              | _ \<Rightarrow> (TypeError, w2))))))"

section \<open>Auxiliary definitions for the statements\<close>

text \<open>
  The accounts table after a committed \<^verbatim>\<open>UPDATE\<close> that adds the amount \<open>x\<close>
  to the balance of \<open>n\<close> or subtracts it, and the transactions table after a committed
  \<^verbatim>\<open>INSERT\<close> of one row.
\<close>

definition credited :: "string \<Rightarrow> double \<Rightarrow> store \<Rightarrow> store" where
  "credited n x s =
     (case accounts s n of
        None \<Rightarrow> s
      | Some a \<Rightarrow>
          s\<lparr>accounts := (accounts s)(n \<mapsto> a\<lparr>balance := sql_add (balance a) (bind_real x)\<rparr>)\<rparr>)"

definition debited :: "string \<Rightarrow> double \<Rightarrow> store \<Rightarrow> store" where
  "debited n x s =
     (case accounts s n of
        None \<Rightarrow> s
      | Some a \<Rightarrow>
          s\<lparr>accounts := (accounts s)(n \<mapsto> a\<lparr>balance := sql_sub (balance a) (bind_real x)\<rparr>)\<rparr>)"

definition logged :: "string \<Rightarrow> string \<Rightarrow> double \<Rightarrow> string \<Rightarrow> string \<Rightarrow> store \<Rightarrow> store" where
  "logged n ty x d ts s =
     s\<lparr>transactions := transactions s @
          [\<lparr>tid = transactions_seq s + 1, account_number = n, transaction_type = ty,
            amount = x, description = d, timestamp = ts\<rparr>],
       transactions_seq := transactions_seq s + 1\<rparr>"

text \<open>The next \<open>k\<close> store calls do not raise.\<close>

fun no_fault :: "nat \<Rightarrow> bool list \<Rightarrow> bool" where
  "no_fault 0 fs = True"
| "no_fault (Suc k) fs = (\<not> raises fs \<and> no_fault k (tl fs))"

text \<open>
  The real number \<open>x\<close> is a double: rounding leaves it as it is. A sum or a difference
  that is a double is computed without rounding error.
\<close>

definition is_double :: "real \<Rightarrow> bool" where
  "is_double x = (rnd x = Finite x)"

text \<open>The real number that a finite double stands for.\<close>

fun fin :: "double \<Rightarrow> real" where
  "fin (Finite x) = x"
| "fin NaN = 0"
| "fin NInf = 0"
| "fin PInf = 0"

text \<open>
  Stores for the concrete instances. \<open>rub_account\<close> is a rouble account with a finite
  balance and overdraft limit; \<open>store_of\<close> is the store with the given accounts and
  nothing else. The sample store has the two accounts of the sample data of
  \<^verbatim>\<open>create_sample_data\<close> and one account in another currency.
\<close>

definition rub_account :: "real \<Rightarrow> real \<Rightarrow> account" where
  "rub_account b od = \<lparr>user_id = 1, account_type = ''Checking'', currency = ''RUB'',
     balance = Some (Finite b), overdraft_limit = Some (Finite od),
     created_date = ''2024-01-01 10:00:00''\<rparr>"

definition store_of :: "(string \<times> account) list \<Rightarrow> store" where
  "store_of xs = empty_store\<lparr>accounts := map_of xs\<rparr>"

definition ivanov_account :: account where
  "ivanov_account = rub_account 10000 5000"

definition petrova_account :: account where
  "petrova_account = \<lparr>user_id = 2, account_type = ''Savings'', currency = ''RUB'',
     balance = Some (Finite 5000), overdraft_limit = Some (Finite 0),
     created_date = ''2024-01-01 10:00:01''\<rparr>"

definition dollar_account :: account where
  "dollar_account = \<lparr>user_id = 2, account_type = ''Savings'', currency = ''USD'',
     balance = Some (Finite 100), overdraft_limit = Some (Finite 0),
     created_date = ''2024-01-01 10:00:02''\<rparr>"

definition sample_store :: store where
  "sample_store = store_of
     [(''40817810123456789'', ivanov_account),
      (''40817810987654321'', petrova_account),
      (''40817810555555555'', dollar_account)]"




text \<open>
  A store with a small account and an account whose balance is \<open>2 ^ 53\<close>, where the
  doubles are two apart.
\<close>

definition big_store :: store where
  "big_store = store_of
     [(''40817810123456789'', rub_account 10 0),
      (''40817810987654321'', rub_account 9007199254740992 0)]"

text \<open>
  The doubles that Python reads from the decimal literals \<^verbatim>\<open>0.9\<close>,
  \<^verbatim>\<open>0.2\<close>, \<^verbatim>\<open>0.02\<close>, \<^verbatim>\<open>0.03\<close> and \<^verbatim>\<open>0.05\<close>, and
  stores with one account for them.
\<close>

definition d0_9 :: real where
  "d0_9 = 8106479329266893 / 2 ^ 53"

definition d0_2 :: real where
  "d0_2 = 3602879701896397 / 2 ^ 54"

definition d0_02 :: real where
  "d0_02 = 5764607523034235 / 2 ^ 58"

definition d0_03 :: real where
  "d0_03 = 1080863910568919 / 2 ^ 55"

definition d0_05 :: real where
  "d0_05 = 3602879701896397 / 2 ^ 56"

definition dime_store :: store where
  "dime_store = store_of [(''40817810123456789'', rub_account d0_9 0)]"


text \<open>A store with one account of balance \<open>2 ^ 53 + 2\<close> and overdraft limit 1.\<close>

definition edge_store :: store where
  "edge_store = store_of
     [(''40817810123456789'', rub_account 9007199254740994 1),
      (''40817810987654321'', rub_account 0 0)]"


text \<open>
  A deposit or a withdrawal as a value: account number, amount, description and clock
  reading. \<open>run_ops\<close> performs a sequence of them and is \<open>None\<close> as soon as one of
  them does not return success: \<open>Some\<close> means that every operation of the sequence
  succeeded.
\<close>

datatype ledger_op =
    Deposit string double string string
  | Withdraw string double string string

fun run_op :: "ledger_op \<Rightarrow> world \<Rightarrow> (error + unit) outcome \<times> world" where
  "run_op (Deposit n x d ts) w = (case deposit n x d ts w of (r, w') \<Rightarrow> (Returns r, w'))"
| "run_op (Withdraw n x d ts) w = withdraw n x d ts w"

fun run_ops :: "ledger_op list \<Rightarrow> world \<Rightarrow> world option" where
  "run_ops [] w = Some w"
| "run_ops (p # ps) w =
     (case run_op p w of
        (Returns (Inr u), w') \<Rightarrow> run_ops ps w'
      | (Returns (Inl e), w') \<Rightarrow> None
      | (TypeError, w') \<Rightarrow> None)"

text \<open>
  The balance column of account \<open>n\<close> after the operations of a sequence, from the
  value \<open>v\<close>: each deposit into \<open>n\<close> adds its amount and each withdrawal from \<open>n\<close>
  subtracts it, in SQLite's arithmetic, in the order of the sequence.
\<close>

fun replay :: "string \<Rightarrow> double option \<Rightarrow> ledger_op list \<Rightarrow> double option" where
  "replay n v [] = v"
| "replay n v (Deposit m x d ts # ps) =
     replay n (if m = n then sql_add v (bind_real x) else v) ps"
| "replay n v (Withdraw m x d ts # ps) =
     replay n (if m = n then sql_sub v (bind_real x) else v) ps"

text \<open>The amounts deposited into \<open>n\<close> and withdrawn from \<open>n\<close>, in order.\<close>

fun deposits_of :: "string \<Rightarrow> ledger_op list \<Rightarrow> double list" where
  "deposits_of n [] = []"
| "deposits_of n (Deposit m x d ts # ps) = (if m = n then x # deposits_of n ps else deposits_of n ps)"
| "deposits_of n (Withdraw m x d ts # ps) = deposits_of n ps"

fun withdrawals_of :: "string \<Rightarrow> ledger_op list \<Rightarrow> double list" where
  "withdrawals_of n [] = []"
| "withdrawals_of n (Deposit m x d ts # ps) = withdrawals_of n ps"
| "withdrawals_of n (Withdraw m x d ts # ps) =
     (if m = n then x # withdrawals_of n ps else withdrawals_of n ps)"

text \<open>The exact sum of a list of finite amounts.\<close>

definition total :: "double list \<Rightarrow> real" where
  "total xs = sum_list (map fin xs)"

text \<open>The amounts of the rows of type \<open>ty\<close> on account \<open>n\<close>, in the order of the table.\<close>

definition row_amounts :: "string \<Rightarrow> string \<Rightarrow> store \<Rightarrow> double list" where
  "row_amounts ty n s =
     map amount
       (filter (\<lambda>t. account_number t = n \<and> transaction_type t = ty) (transactions s))"

text \<open>
  Every operation of the sequence on account \<open>n\<close> has a finite amount and computes its
  new balance, from the exact balance \<open>b\<close> on, without rounding.
\<close>

fun exact_run :: "string \<Rightarrow> real \<Rightarrow> ledger_op list \<Rightarrow> bool" where
  "exact_run n b [] = True"
| "exact_run n b (Deposit m x d ts # ps) =
     (if m = n
      then (case x of Finite y \<Rightarrow> is_double (b + y) \<and> exact_run n (b + y) ps | _ \<Rightarrow> False)
      else exact_run n b ps)"
| "exact_run n b (Withdraw m x d ts # ps) =
     (if m = n
      then (case x of Finite y \<Rightarrow> is_double (b - y) \<and> exact_run n (b - y) ps | _ \<Rightarrow> False)
      else exact_run n b ps)"

text \<open>
  The foreign key that the schema declares on \<^verbatim>\<open>transactions.account_number\<close>:
  every row is on an account of the accounts table.
\<close>

definition foreign_key :: "store \<Rightarrow> bool" where
  "foreign_key s = (\<forall>t \<in> set (transactions s). accounts s (account_number t) \<noteq> None)"

definition user_row :: "user_data \<Rightarrow> string \<Rightarrow> int \<Rightarrow> user" where
  "user_row d h i =
     \<lparr>first_name = first_name d, last_name = last_name d,
      date_of_birth = date_of_birth d, street = street d, city = city d,
      zip_code = zip_code d, country = country d,
      phone_number = phone_number d, email = email d,
      username = username d, uid = i, password_hash = h\<rparr>"


text \<open>The \<^verbatim>\<open>UNIQUE\<close> constraint of the schema on \<^verbatim>\<open>users.username\<close>.\<close>

definition unique_usernames :: "store \<Rightarrow> bool" where
  "unique_usernames s = distinct (map username (users s))"

text \<open>
  For the concrete instances: a stand-in for the hash function, and the registration
  data of the first sample user of \<^verbatim>\<open>create_sample_data\<close> (names in Latin
  letters).
\<close>

definition sample_hash :: "string \<Rightarrow> string" where
  "sample_hash p = ''#'' @ rev p"

definition ivanov_data :: user_data where
  "ivanov_data =
     \<lparr>first_name = ''Ivan'', last_name = ''Ivanov'', date_of_birth = ''15.05.1990'',
      street = ''ul. Lenina, d. 10'', city = ''Moskva'', zip_code = ''101000'',
      country = ''Rossiya'', phone_number = ''+79161234567'',
      email = ''ivanov@example.com'', username = ''ivanov'',
      password = ''password123''\<rparr>"

definition users_store :: store where
  "users_store = empty_store\<lparr>users := [user_row ivanov_data (sample_hash ''password123'') 1],
     users_seq := 1\<rparr>"

section \<open>The methods, one store call after the other\<close>

text \<open>
  Each method as a chain of tests on the amount, the fault schedule and the tables: the
  form in which the theorems below use them.
\<close>

lemmas rnd_eval = rnd_def floor_log2.simps round_half_even_def pow2_def Let_def

text \<open>
  Rounding at \<open>2 ^ 53\<close>, where the doubles are the even integers: a tie goes to the
  neighbour with the even significand.
\<close>

lemma rounding_ties:
  "rnd 9007199254740992 = Finite 9007199254740992"
  "rnd 9007199254740993 = Finite 9007199254740992"
  "rnd 9007199254740994 = Finite 9007199254740994"
  "rnd 9007199254740995 = Finite 9007199254740996"
  by (simp_all add: rnd_eval)

text \<open>The doubles of the decimal literals, as Python reads them.\<close>

lemma decimal_literals:
  "rnd (9 / 10) = Finite d0_9" "rnd (2 / 10) = Finite d0_2" "rnd (2 / 100) = Finite d0_02"
  "rnd (3 / 100) = Finite d0_03" "rnd (5 / 100) = Finite d0_05"
  by (simp_all add: rnd_eval d0_9_def d0_2_def d0_02_def d0_03_def d0_05_def)

lemma bind_real_simps [simp]:
  "bind_real NaN = None" "bind_real (Finite x) = Some (Finite x)"
  "bind_real PInf = Some PInf" "bind_real NInf = Some NInf"
  by (simp_all add: bind_real_def)

lemma bind_real_eq_None [simp]: "bind_real x = None \<longleftrightarrow> x = NaN"
  by (simp add: bind_real_def)

lemma fle_NaN [simp]: "\<not> fle a NaN" "\<not> flt a NaN"
  by (cases a; simp)+

lemma flt_not_NaN: "flt a b \<Longrightarrow> a \<noteq> NaN \<and> b \<noteq> NaN"
  by (cases a; cases b; simp)

lemma fle_not_NaN: "fle a b \<Longrightarrow> a \<noteq> NaN \<and> b \<noteq> NaN"
  by (cases a; cases b; simp)

lemma deposit_eq:
  "deposit n x d ts (s, fs) =
     (if fle x (Finite 0) then (Inl InvalidAmount, (s, fs))
      else if raises fs then (Inl (StorageError InDeposit), (s, tl fs))
      else if accounts s n = None then (Inl AccountNotFound, (s, tl fs))
      else if raises (tl fs) then (Inl (StorageError InDeposit), (s, tl (tl fs)))
      else if raises (tl (tl fs)) \<or> x = NaN
        then (Inl (StorageError InDeposit), (credited n x s, tl (tl (tl fs))))
      else (Inr (), (logged n ''DEPOSIT'' x d ts (credited n x s), tl (tl (tl fs)))))"
  by (auto simp: deposit_def get_account_def update_balance_def insert_transaction_def
      credited_def logged_def Let_def split: option.splits)

lemma withdraw_eq:
  "withdraw n x d ts (s, fs) =
     (if fle x (Finite 0) then (Returns (Inl InvalidAmount), (s, fs))
      else if raises fs then (Returns (Inl (StorageError InWithdraw)), (s, tl fs))
      else case accounts s n of
        None \<Rightarrow> (Returns (Inl AccountNotFound), (s, tl fs))
      | Some acc \<Rightarrow>
          (case (balance acc, overdraft_limit acc) of
             (Some b, Some od) \<Rightarrow>
               if flt (fadd b od) x
                 then (Returns (Inl (InsufficientFunds (fadd b od))), (s, tl fs))
               else if raises (tl fs)
                 then (Returns (Inl (StorageError InWithdraw)), (s, tl (tl fs)))
               else if raises (tl (tl fs)) \<or> x = NaN
                 then (Returns (Inl (StorageError InWithdraw)),
                       (debited n x s, tl (tl (tl fs))))
               else (Returns (Inr ()),
                     (logged n ''WITHDRAWAL'' x d ts (debited n x s), tl (tl (tl fs))))
           | _ \<Rightarrow> (TypeError, (s, tl fs))))"
  by (auto simp: withdraw_def get_account_def update_balance_def insert_transaction_def
      debited_def logged_def Let_def split: option.splits)

lemma accounts_credited:
  "accounts (credited n x s) m =
     (if m = n
      then map_option (\<lambda>a. a\<lparr>balance := sql_add (balance a) (bind_real x)\<rparr>) (accounts s n)
      else accounts s m)"
  by (simp add: credited_def split: option.splits)

lemma accounts_debited:
  "accounts (debited n x s) m =
     (if m = n
      then map_option (\<lambda>a. a\<lparr>balance := sql_sub (balance a) (bind_real x)\<rparr>) (accounts s n)
      else accounts s m)"
  by (simp add: debited_def split: option.splits)

lemma credited_other [simp]:
  "transactions (credited n x s) = transactions s"
  "transactions_seq (credited n x s) = transactions_seq s"
  "users (credited n x s) = users s"
  "users_seq (credited n x s) = users_seq s"
  by (simp_all add: credited_def split: option.splits)

lemma debited_other [simp]:
  "transactions (debited n x s) = transactions s"
  "transactions_seq (debited n x s) = transactions_seq s"
  "users (debited n x s) = users s"
  "users_seq (debited n x s) = users_seq s"
  by (simp_all add: debited_def split: option.splits)

lemma logged_simps [simp]:
  "accounts (logged n ty x d ts s) = accounts s"
  "users (logged n ty x d ts s) = users s"
  "users_seq (logged n ty x d ts s) = users_seq s"
  "transactions_seq (logged n ty x d ts s) = transactions_seq s + 1"
  "transactions (logged n ty x d ts s) = transactions s @
     [\<lparr>tid = transactions_seq s + 1, account_number = n, transaction_type = ty,
       amount = x, description = d, timestamp = ts\<rparr>]"
  by (simp_all add: logged_def)

lemma transfer_eq:
  "transfer A B x d t1 t2 t3 (s, fs) =
     (if fle x (Finite 0) then (Returns (Inl InvalidAmount), (s, fs))
      else if raises fs then (Returns (Inl (StorageError InTransfer)), (s, tl fs))
      else if raises (tl fs) then (Returns (Inl (StorageError InTransfer)), (s, tl (tl fs)))
      else case accounts s A of
        None \<Rightarrow> (Returns (Inl (SourceNotFound A)), (s, tl (tl fs)))
      | Some fa \<Rightarrow>
          (case accounts s B of
             None \<Rightarrow> (Returns (Inl (DestinationNotFound B)), (s, tl (tl fs)))
           | Some ta \<Rightarrow>
               if currency fa \<noteq> currency ta
                 then (Returns (Inl CurrencyMismatch), (s, tl (tl fs)))
               else
                 (case (balance fa, overdraft_limit fa) of
                    (Some b, Some od) \<Rightarrow>
                      if flt (fadd b od) x
                        then (Returns (Inl (InsufficientFunds (fadd b od))), (s, tl (tl fs)))
                      else
                        (case withdraw A x (transfer_to_text @ B @ ''. '' @ d) t1
                                (s, tl (tl fs)) of
                           (TypeError, w3) \<Rightarrow> (TypeError, w3)
                         | (Returns (Inl e), w3) \<Rightarrow> (Returns (Inl e), w3)
                         | (Returns (Inr u), w3) \<Rightarrow>
                             (case deposit B x (transfer_from_text @ A @ ''. '' @ d) t2 w3 of
                                (Inr u', w4) \<Rightarrow> (Returns (Inr ()), w4)
                              | (Inl e, w4) \<Rightarrow>
                                  (Returns (Inl TransferFailed),
                                   snd (deposit A x rollback_text t3 w4))))
                  | _ \<Rightarrow> (TypeError, (s, tl (tl fs))))))"
  by (simp add: transfer_def get_account_def Let_def
      split: option.splits prod.splits sum.splits outcome.splits)

lemma withdraw_success:
  "withdraw n x d ts (s, fs) = (Returns (Inr ()), w') \<Longrightarrow>
     (\<exists>acc b od. accounts s n = Some acc \<and> balance acc = Some b \<and>
        overdraft_limit acc = Some od \<and> \<not> flt (fadd b od) x) \<and>
     \<not> fle x (Finite 0) \<and> x \<noteq> NaN \<and> no_fault 3 fs \<and>
     w' = (logged n ''WITHDRAWAL'' x d ts (debited n x s), tl (tl (tl fs)))"
  by (auto simp: withdraw_eq eval_nat_numeral split: if_splits option.splits)

lemma deposit_success:
  "deposit n x d ts (s, fs) = (Inr (), w') \<Longrightarrow>
     accounts s n \<noteq> None \<and> \<not> fle x (Finite 0) \<and> x \<noteq> NaN \<and> no_fault 3 fs \<and>
     w' = (logged n ''DEPOSIT'' x d ts (credited n x s), tl (tl (tl fs)))"
  by (auto simp: deposit_eq eval_nat_numeral split: if_splits)

lemma transfer_success:
  assumes "transfer A B x d t1 t2 t3 (s, fs) = (Returns (Inr ()), w')"
  shows "x \<noteq> NaN \<and>
    w' = (logged B ''DEPOSIT'' x (transfer_from_text @ A @ ''. '' @ d) t2
                 (credited B x
                   (logged A ''WITHDRAWAL'' x (transfer_to_text @ B @ ''. '' @ d) t1
                     (debited A x s))),
               tl (tl (tl (tl (tl (tl (tl (tl fs))))))))"
proof -
  from assms obtain w3 where
    w: "withdraw A x (transfer_to_text @ B @ ''. '' @ d) t1 (s, tl (tl fs)) = (Returns (Inr ()), w3)"
    and dp: "deposit B x (transfer_from_text @ A @ ''. '' @ d) t2 w3 = (Inr (), w')"
    by (auto simp: transfer_eq
        split: if_splits option.splits prod.splits sum.splits outcome.splits)
  from withdraw_success [OF w]
  have w3: "w3 = (logged A ''WITHDRAWAL'' x (transfer_to_text @ B @ ''. '' @ d) t1
                     (debited A x s), tl (tl (tl (tl (tl fs)))))"
    and x: "x \<noteq> NaN"
    by simp_all
  from deposit_success [OF dp [unfolded w3]] x show ?thesis by simp
qed

lemma transfer_succeeds:
  assumes "accounts s A = Some a" "accounts s B = Some b" "currency a = currency b"
    "balance a = Some ba" "overdraft_limit a = Some oa"
    "flt (Finite 0) x" "fle x (fadd ba oa)" "no_fault 8 fs"
  shows "fst (transfer A B x d t1 t2 t3 (s, fs)) = Returns (Inr ())"
proof -
  from assms(6,7) have x: "\<not> fle x (Finite 0)" "\<not> flt (fadd ba oa) x" "x \<noteq> NaN"
    by (cases x; cases "fadd ba oa"; simp)+
  with assms show ?thesis
    by (simp add: transfer_eq withdraw_eq deposit_eq eval_nat_numeral accounts_debited)
qed

text \<open>
  A property of the store that every withdrawal and every deposit keeps, whatever their
  outcome, is kept by every transfer.
\<close>

lemma transfer_preserves:
  assumes W: "\<And>n x d ts s fs. P s \<Longrightarrow> P (fst (snd (withdraw n x d ts (s, fs))))"
    and D: "\<And>n x d ts s fs. P s \<Longrightarrow> P (fst (snd (deposit n x d ts (s, fs))))"
    and s: "P s"
  shows "P (fst (snd (transfer A B x d t1 t2 t3 (s, fs))))"
proof -
  have W': "P (fst w) \<Longrightarrow> P (fst (snd (withdraw n x d ts w)))" for n x d ts w
    using W [of "fst w" n x d ts "snd w"] by simp
  have D': "P (fst w) \<Longrightarrow> P (fst (snd (deposit n x d ts w)))" for n x d ts w
    using D [of "fst w" n x d ts "snd w"] by simp
  let ?w2 = "(s, tl (tl fs))"
  let ?w3 = "snd (withdraw A x (transfer_to_text @ B @ ''. '' @ d) t1 ?w2)"
  let ?w4 = "snd (deposit B x (transfer_from_text @ A @ ''. '' @ d) t2 ?w3)"
  let ?w5 = "snd (deposit A x rollback_text t3 ?w4)"
  have 3: "P (fst ?w3)" using W' [of ?w2] s by simp
  have 4: "P (fst ?w4)" using D' [OF 3] .
  have 5: "P (fst ?w5)" using D' [OF 4] .
  have "snd (transfer A B x d t1 t2 t3 (s, fs)) \<in> {(s, fs), (s, tl fs), ?w2, ?w3, ?w4, ?w5}"
    by (auto simp: transfer_eq split: option.splits prod.splits sum.splits outcome.splits)
  with s 3 4 5 show ?thesis by auto
qed

lemma create_account_eq:
  "create_account r u ty cur od now (s, fs) =
     (if raises fs \<or> accounts s (generate_account_number r) \<noteq> None
      then (Inl (StorageError InCreateAccount), (s, tl fs))
      else (Inr (generate_account_number r),
            (s\<lparr>accounts := (accounts s)(generate_account_number r \<mapsto>
                 \<lparr>user_id = u, account_type = ty, currency = cur, balance = Some (Finite 0),
                  overdraft_limit = bind_real od, created_date = now\<rparr>)\<rparr>,
             tl fs)))"
  by (simp add: create_account_def insert_account_def Let_def)

section \<open>The identity service, one store call after the other\<close>

lemma register_user_eq:
  "register_user H d (s, fs) =
     (if raises fs then (Inl (StorageError InRegister), (s, tl fs))
      else if find (\<lambda>u. username u = username d) (users s) \<noteq> None
        then (Inl UsernameTaken, (s, tl fs))
      else if raises (tl fs) then (Inl (StorageError InRegister), (s, tl (tl fs)))
      else (Inr (users_seq s + 1),
            (s\<lparr>users := users s @ [user_row d (H (password d)) (users_seq s + 1)],
               users_seq := users_seq s + 1\<rparr>,
             tl (tl fs))))"
  by (auto simp: register_user_def select_user_def insert_user_def user_row_def Let_def
      split: option.splits)




lemma find_None_filter: "find P xs = None \<longleftrightarrow> filter P xs = []"
  by (induction xs) auto

lemma username_user_row [simp]: "username (user_row d h i) = username d"
  by (simp add: user_row_def)

lemma password_hash_user_row [simp]: "password_hash (user_row d h i) = h"
  by (simp add: user_row_def)

lemma register_user_unique:
  assumes "unique_usernames s"
  shows "unique_usernames (fst (snd (register_user H d (s, fs))))"
  using assms
  by (auto simp: register_user_eq unique_usernames_def find_None_iff)

section \<open>Transfer between two accounts\<close>

text \<open>
  Claim C1 says that a successful transfer of \<open>X\<close> decreases the balance of the source
  by exactly \<open>X\<close> and increases the balance of the destination by exactly \<open>X\<close>. The
  balances are doubles and SQLite rounds the sum: a transfer of 1 from an account with
  balance 10 to an account with balance \<open>2 ^ 53\<close> succeeds, debits the source, and
  leaves the destination at \<open>2 ^ 53\<close>.
\<close>

theorem transfer_exact_amount_counterexample:
  "fst (transfer ''40817810123456789'' ''40817810987654321'' (Finite 1) '''' ''t1'' ''t2'' ''t3''
          (big_store, [])) = Returns (Inr ()) \<and>
   map_option balance (accounts (fst (snd (transfer ''40817810123456789''
      ''40817810987654321'' (Finite 1) '''' ''t1'' ''t2'' ''t3'' (big_store, []))))
      ''40817810123456789'') = Some (Some (Finite 9)) \<and>
   map_option balance (accounts big_store ''40817810987654321'') =
     Some (Some (Finite 9007199254740992)) \<and>
   map_option balance (accounts (fst (snd (transfer ''40817810123456789''
      ''40817810987654321'' (Finite 1) '''' ''t1'' ''t2'' ''t3'' (big_store, []))))
      ''40817810987654321'') = Some (Some (Finite 9007199254740992)) \<and>
   map_option balance (accounts (fst (snd (transfer ''40817810123456789''
      ''40817810987654321'' (Finite 1) '''' ''t1'' ''t2'' ''t3'' (big_store, []))))
      ''40817810987654321'') \<noteq> Some (Some (Finite (9007199254740992 + 1)))"
proof -
  have ar: "rnd 10 = Finite 10" "rnd 9 = Finite 9"
    "rnd 9007199254740993 = Finite 9007199254740992"
    by (simp_all add: rnd_eval)
  show ?thesis
    by (simp add: transfer_eq withdraw_eq deposit_eq raises_def credited_def debited_def
        logged_def big_store_def store_of_def empty_store_def rub_account_def
        sql_add_def sql_sub_def ar)
qed

text \<open>
  Claim C1, amended. For distinct accounts \<open>A\<close> and \<open>B\<close>: a transfer succeeds when
  the currencies are equal, \<open>0 < X \<le> balance A + overdraft_limit A\<close> (the sum and the
  comparisons as Python computes them on doubles) and none of its eight store calls
  raises. Every successful transfer leaves \<open>A\<close> with the double nearest to its balance
  minus \<open>X\<close> and \<open>B\<close> with the double nearest to its balance plus \<open>X\<close> (SQLite's
  \<^verbatim>\<open>-\<close> and \<^verbatim>\<open>+\<close>), which are the exact difference and the exact sum
  whenever these are doubles; every other account is as it was, and the transactions
  table has exactly two more rows, a \<^verbatim>\<open>WITHDRAWAL\<close> of \<open>X\<close> on \<open>A\<close> followed
  by a \<^verbatim>\<open>DEPOSIT\<close> of \<open>X\<close> on \<open>B\<close>.
\<close>

theorem transfer_moves_amount:
  assumes "A \<noteq> B" and "accounts s A = Some a" and "accounts s B = Some b"
  shows "(currency a = currency b \<and> balance a = Some ba \<and> overdraft_limit a = Some oa \<and>
      flt (Finite 0) X \<and> fle X (fadd ba oa) \<and> no_fault 8 fs \<longrightarrow>
        fst (transfer A B X d t1 t2 t3 (s, fs)) = Returns (Inr ())) \<and>
    (\<forall>w'. transfer A B X d t1 t2 t3 (s, fs) = (Returns (Inr ()), w') \<longrightarrow>
       accounts (fst w') =
         (accounts s)(A \<mapsto> a\<lparr>balance := sql_sub (balance a) (Some X)\<rparr>,
                      B \<mapsto> b\<lparr>balance := sql_add (balance b) (Some X)\<rparr>) \<and>
       (\<forall>x va vb. X = Finite x \<and> balance a = Some (Finite va) \<and>
            balance b = Some (Finite vb) \<and> is_double (va - x) \<and> is_double (vb + x) \<longrightarrow>
          sql_sub (balance a) (Some X) = Some (Finite (va - x)) \<and>
          sql_add (balance b) (Some X) = Some (Finite (vb + x))) \<and>
       transactions (fst w') = transactions s @
         [\<lparr>tid = transactions_seq s + 1, account_number = A,
           transaction_type = ''WITHDRAWAL'', amount = X,
           description = transfer_to_text @ B @ ''. '' @ d, timestamp = t1\<rparr>,
          \<lparr>tid = transactions_seq s + 2, account_number = B,
           transaction_type = ''DEPOSIT'', amount = X,
           description = transfer_from_text @ A @ ''. '' @ d, timestamp = t2\<rparr>] \<and>
       users (fst w') = users s)"
proof (intro conjI allI impI)
  assume "currency a = currency b \<and> balance a = Some ba \<and> overdraft_limit a = Some oa \<and>
      flt (Finite 0) X \<and> fle X (fadd ba oa) \<and> no_fault 8 fs"
  with assms show "fst (transfer A B X d t1 t2 t3 (s, fs)) = Returns (Inr ())"
    by (simp add: transfer_succeeds)
next
  fix w' assume t: "transfer A B X d t1 t2 t3 (s, fs) = (Returns (Inr ()), w')"
  from transfer_success [OF t] have X: "bind_real X = Some X" and
    w: "w' = (logged B ''DEPOSIT'' X (transfer_from_text @ A @ ''. '' @ d) t2
                 (credited B X
                   (logged A ''WITHDRAWAL'' X (transfer_to_text @ B @ ''. '' @ d) t1
                     (debited A X s))),
               tl (tl (tl (tl (tl (tl (tl (tl fs))))))))"
    by (simp_all add: bind_real_def)
  show "accounts (fst w') =
         (accounts s)(A \<mapsto> a\<lparr>balance := sql_sub (balance a) (Some X)\<rparr>,
                      B \<mapsto> b\<lparr>balance := sql_add (balance b) (Some X)\<rparr>)"
    using assms by (auto simp: w X accounts_credited accounts_debited fun_eq_iff)
  show "transactions (fst w') = transactions s @
         [\<lparr>tid = transactions_seq s + 1, account_number = A,
           transaction_type = ''WITHDRAWAL'', amount = X,
           description = transfer_to_text @ B @ ''. '' @ d, timestamp = t1\<rparr>,
          \<lparr>tid = transactions_seq s + 2, account_number = B,
           transaction_type = ''DEPOSIT'', amount = X,
           description = transfer_from_text @ A @ ''. '' @ d, timestamp = t2\<rparr>]"
    by (simp add: w)
  show "users (fst w') = users s" by (simp add: w)
next
  fix w' x va vb
  assume "X = Finite x \<and> balance a = Some (Finite va) \<and>
            balance b = Some (Finite vb) \<and> is_double (va - x) \<and> is_double (vb + x)"
  then show "sql_sub (balance a) (Some X) = Some (Finite (va - x))"
    and "sql_add (balance b) (Some X) = Some (Finite (vb + x))"
    by (simp_all add: sql_sub_def sql_add_def is_double_def)
qed

theorem transfer_moves_amount_witness:
  "fst (transfer ''40817810123456789'' ''40817810987654321'' (Finite 3000) ''rent'' ''t1''
          ''t2'' ''t3'' (sample_store, [])) = Returns (Inr ()) \<and>
   map_option balance (accounts (fst (snd (transfer ''40817810123456789''
      ''40817810987654321'' (Finite 3000) ''rent'' ''t1'' ''t2'' ''t3'' (sample_store, []))))
      ''40817810123456789'') = Some (Some (Finite 7000)) \<and>
   map_option balance (accounts (fst (snd (transfer ''40817810123456789''
      ''40817810987654321'' (Finite 3000) ''rent'' ''t1'' ''t2'' ''t3'' (sample_store, []))))
      ''40817810987654321'') = Some (Some (Finite 8000)) \<and>
   map amount (transactions (fst (snd (transfer ''40817810123456789'' ''40817810987654321''
      (Finite 3000) ''rent'' ''t1'' ''t2'' ''t3'' (sample_store, []))))) =
     [Finite 3000, Finite 3000]"
proof -
  let ?A = "''40817810123456789''" and ?B = "''40817810987654321''"
  let ?r = "transfer ?A ?B (Finite 3000) ''rent'' ''t1'' ''t2'' ''t3'' (sample_store, [])"
  have ar: "rnd 15000 = Finite 15000" "rnd 7000 = Finite 7000" "rnd 8000 = Finite 8000"
    by (simp_all add: rnd_eval)
  have h: "?A \<noteq> ?B" "accounts sample_store ?A = Some ivanov_account"
    "accounts sample_store ?B = Some petrova_account"
    by (simp_all add: sample_store_def store_of_def)
  have g: "currency ivanov_account = currency petrova_account \<and>
      balance ivanov_account = Some (Finite 10000) \<and>
      overdraft_limit ivanov_account = Some (Finite 5000) \<and>
      flt (Finite 0) (Finite 3000) \<and> fle (Finite 3000) (fadd (Finite 10000) (Finite 5000)) \<and>
      no_fault 8 []"
    by (simp add: ivanov_account_def rub_account_def petrova_account_def ar
        eval_nat_numeral raises_def)
  have e: "Finite 3000 = Finite 3000 \<and> balance ivanov_account = Some (Finite 10000) \<and>
      balance petrova_account = Some (Finite 5000) \<and> is_double (10000 - 3000) \<and>
      is_double (5000 + 3000)"
    by (simp add: ivanov_account_def rub_account_def petrova_account_def is_double_def ar)
  note T = transfer_moves_amount [OF h, of "Finite 10000" "Finite 5000" "Finite 3000" "[]"
      "''rent''" "''t1''" "''t2''" "''t3''"]
  from T g have ok: "fst ?r = Returns (Inr ())" by blast
  then have eq: "?r = (Returns (Inr ()), snd ?r)" by (metis prod.collapse)
  from T eq have acc: "accounts (fst (snd ?r)) =
       (accounts sample_store)
         (?A \<mapsto> ivanov_account\<lparr>balance := sql_sub (balance ivanov_account) (Some (Finite 3000))\<rparr>,
          ?B \<mapsto> petrova_account\<lparr>balance := sql_add (balance petrova_account) (Some (Finite 3000))\<rparr>)"
    and tr: "transactions (fst (snd ?r)) = transactions sample_store @
         [\<lparr>tid = transactions_seq sample_store + 1, account_number = ?A,
           transaction_type = ''WITHDRAWAL'', amount = Finite 3000,
           description = transfer_to_text @ ?B @ ''. '' @ ''rent'', timestamp = ''t1''\<rparr>,
          \<lparr>tid = transactions_seq sample_store + 2, account_number = ?B,
           transaction_type = ''DEPOSIT'', amount = Finite 3000,
           description = transfer_from_text @ ?A @ ''. '' @ ''rent'', timestamp = ''t2''\<rparr>]"
    and ex: "\<forall>x va vb. Finite 3000 = Finite x \<and> balance ivanov_account = Some (Finite va) \<and>
            balance petrova_account = Some (Finite vb) \<and> is_double (va - x) \<and>
            is_double (vb + x) \<longrightarrow>
          sql_sub (balance ivanov_account) (Some (Finite 3000)) = Some (Finite (va - x)) \<and>
          sql_add (balance petrova_account) (Some (Finite 3000)) = Some (Finite (vb + x))"
    by blast+
  from ex e have v: "sql_sub (balance ivanov_account) (Some (Finite 3000)) = Some (Finite (10000 - 3000))"
    "sql_add (balance petrova_account) (Some (Finite 3000)) = Some (Finite (5000 + 3000))"
    by blast+
  have tz: "transactions sample_store = []" "transactions_seq sample_store = 0"
    by (simp_all add: sample_store_def store_of_def empty_store_def)
  from ok show ?thesis
    by (simp add: acc tr v tz)
qed

section \<open>The rollback of a transfer\<close>

text \<open>
  Claim C2. The claim says that a failure of the rollback deposit of a transfer is
  reported to the caller as an error of its own. The source calls the rollback deposit
  and drops its result. On the sample store, with a fault schedule under which the
  withdrawal succeeds, the deposit into the destination fails and the rollback deposit
  fails too, the transfer returns the same \<open>TransferFailed\<close> as with a schedule under
  which the rollback succeeds, while the source account stays debited: the amount 3000
  is neither in the source nor in the destination.
\<close>

theorem transfer_rollback_failure_unreported:
  "deposit ''40817810123456789'' (Finite 3000) rollback_text ''t3''
     (snd (deposit ''40817810987654321'' (Finite 3000)
        (transfer_from_text @ ''40817810123456789'' @ ''. '') ''t2''
        (snd (withdraw ''40817810123456789'' (Finite 3000)
           (transfer_to_text @ ''40817810987654321'' @ ''. '') ''t1''
           (sample_store, [False, False, False, True, True]))))) =
     (Inl (StorageError InDeposit),
      (sample_store\<lparr>accounts := (accounts sample_store)
           (''40817810123456789'' \<mapsto> ivanov_account\<lparr>balance := Some (Finite 7000)\<rparr>),
         transactions :=
           [\<lparr>tid = 1, account_number = ''40817810123456789'',
             transaction_type = ''WITHDRAWAL'', amount = Finite 3000,
             description = transfer_to_text @ ''40817810987654321'' @ ''. '',
             timestamp = ''t1''\<rparr>],
         transactions_seq := 1\<rparr>, [])) \<and>
   transfer ''40817810123456789'' ''40817810987654321'' (Finite 3000) '''' ''t1'' ''t2'' ''t3''
     (sample_store, [False, False, False, False, False, True, True]) =
     (Returns (Inl TransferFailed),
      (sample_store\<lparr>accounts := (accounts sample_store)
           (''40817810123456789'' \<mapsto> ivanov_account\<lparr>balance := Some (Finite 7000)\<rparr>),
         transactions :=
           [\<lparr>tid = 1, account_number = ''40817810123456789'',
             transaction_type = ''WITHDRAWAL'', amount = Finite 3000,
             description = transfer_to_text @ ''40817810987654321'' @ ''. '',
             timestamp = ''t1''\<rparr>],
         transactions_seq := 1\<rparr>, [])) \<and>
   fst (transfer ''40817810123456789'' ''40817810987654321'' (Finite 3000) '''' ''t1'' ''t2''
     ''t3'' (sample_store, [False, False, False, False, False, True])) =
     Returns (Inl TransferFailed) \<and>
   map_option balance (accounts (fst (snd
     (transfer ''40817810123456789'' ''40817810987654321'' (Finite 3000) '''' ''t1'' ''t2''
        ''t3'' (sample_store, [False, False, False, False, False, True]))))
     ''40817810123456789'') = Some (Some (Finite 10000))"
proof -
  have ar: "rnd 15000 = Finite 15000" "rnd 7000 = Finite 7000" "rnd 10000 = Finite 10000"
    by (simp_all add: rnd_eval)
  show ?thesis
    by (simp add: transfer_eq withdraw_eq deposit_eq raises_def credited_def debited_def
        logged_def sample_store_def store_of_def empty_store_def ivanov_account_def
        rub_account_def petrova_account_def sql_add_def sql_sub_def ar)
qed

section \<open>The order of the checks of a transfer\<close>

text \<open>
  Claim C3 says that a transfer whose amount is not positive is refused with
  \<open>InvalidAmount\<close>, that a transfer whose amount exceeds the balance plus the overdraft
  limit of the source is refused with \<open>InsufficientFunds\<close>, and that a refused transfer
  changes nothing. The source tests \<^verbatim>\<open>amount <= 0\<close> and
  \<^verbatim>\<open>amount > available\<close> on doubles. On an account with balance \<open>2 ^ 53 + 2\<close>
  and overdraft limit 1 the available amount is computed as \<open>2 ^ 53 + 4\<close>, and a
  transfer of \<open>2 ^ 53 + 4\<close>, more than the exact sum, succeeds. A NaN amount passes
  both tests: the withdrawal of the transfer sets the balance of the source to
  \<^verbatim>\<open>NULL\<close> before its insert fails, and the transfer returns the storage error
  of the withdrawal.
\<close>

theorem transfer_checks_counterexample:
  "accounts edge_store ''40817810123456789'' = Some (rub_account 9007199254740994 1) \<and>
   (9007199254740994 + 1 :: real) < 9007199254740996 \<and>
   fst (transfer ''40817810123456789'' ''40817810987654321'' (Finite 9007199254740996) ''''
          ''t1'' ''t2'' ''t3'' (edge_store, [])) = Returns (Inr ()) \<and>
   \<not> flt (Finite 0) NaN \<and>
   fst (transfer ''40817810123456789'' ''40817810987654321'' NaN '''' ''t1'' ''t2'' ''t3''
          (sample_store, [])) = Returns (Inl (StorageError InWithdraw)) \<and>
   map_option balance (accounts (fst (snd (transfer ''40817810123456789''
      ''40817810987654321'' NaN '''' ''t1'' ''t2'' ''t3'' (sample_store, []))))
      ''40817810123456789'') = Some None \<and>
   map_option balance (accounts sample_store ''40817810123456789'') =
     Some (Some (Finite 10000))"
proof -
  have ar: "rnd 9007199254740995 = Finite 9007199254740996" "rnd (- 2) = Finite (- 2)"
    "rnd 9007199254740996 = Finite 9007199254740996" "rnd 15000 = Finite 15000"
    by (simp_all add: rnd_eval)
  show ?thesis
    by (simp add: transfer_eq withdraw_eq deposit_eq raises_def credited_def debited_def
        logged_def edge_store_def sample_store_def store_of_def empty_store_def
        rub_account_def ivanov_account_def petrova_account_def sql_add_def sql_sub_def ar)
qed

text \<open>
  Claim C3, amended. \<^verbatim>\<open>transfer\<close> tests, in this order: the amount is not
  \<open>\<le> 0\<close> (\<open>InvalidAmount\<close>), the source account exists (\<open>SourceNotFound\<close>), the
  destination account exists (\<open>DestinationNotFound\<close>), the two currencies are equal
  (\<open>CurrencyMismatch\<close>), the amount is at most the available amount, which is the sum
  of the balance and the overdraft limit of the source rounded to the nearest double
  (\<open>InsufficientFunds\<close>, with that available amount). For an amount that is a number,
  the first test that fails gives the error, provided the two reads of the accounts
  were answered; and whenever one of the tests fails for such an amount, the store
  after the call is the store before it: no balance has changed and no row was
  appended, whatever the fault schedule.
\<close>

theorem transfer_precondition_order:
  "(fle X (Finite 0) \<longrightarrow>
      transfer A B X d t1 t2 t3 (s, fs) = (Returns (Inl InvalidAmount), (s, fs))) \<and>
   (flt (Finite 0) X \<and> no_fault 2 fs \<longrightarrow>
      (accounts s A = None \<longrightarrow>
         transfer A B X d t1 t2 t3 (s, fs) =
           (Returns (Inl (SourceNotFound A)), (s, tl (tl fs)))) \<and>
      (accounts s A \<noteq> None \<and> accounts s B = None \<longrightarrow>
         transfer A B X d t1 t2 t3 (s, fs) =
           (Returns (Inl (DestinationNotFound B)), (s, tl (tl fs)))) \<and>
      (\<forall>a b. accounts s A = Some a \<and> accounts s B = Some b \<longrightarrow>
         (currency a \<noteq> currency b \<longrightarrow>
            transfer A B X d t1 t2 t3 (s, fs) =
              (Returns (Inl CurrencyMismatch), (s, tl (tl fs)))) \<and>
         (\<forall>ba oa. currency a = currency b \<and> balance a = Some ba \<and>
              overdraft_limit a = Some oa \<and> flt (fadd ba oa) X \<longrightarrow>
            transfer A B X d t1 t2 t3 (s, fs) =
              (Returns (Inl (InsufficientFunds (fadd ba oa))), (s, tl (tl fs)))))) \<and>
   (fle X (Finite 0) \<or>
    flt (Finite 0) X \<and>
      (accounts s A = None \<or> accounts s B = None \<or>
       (\<exists>a b. accounts s A = Some a \<and> accounts s B = Some b \<and>
          (currency a \<noteq> currency b \<or>
           (\<exists>ba oa. balance a = Some ba \<and> overdraft_limit a = Some oa \<and>
              flt (fadd ba oa) X))))
    \<longrightarrow> fst (snd (transfer A B X d t1 t2 t3 (s, fs))) = s)"
proof (intro conjI)
  show "fle X (Finite 0) \<longrightarrow>
      transfer A B X d t1 t2 t3 (s, fs) = (Returns (Inl InvalidAmount), (s, fs))"
    by (simp add: transfer_eq)
  have pos: "\<not> fle X (Finite 0)" if "flt (Finite 0) X"
    using that by (cases X) simp_all
  show "flt (Finite 0) X \<and> no_fault 2 fs \<longrightarrow>
      (accounts s A = None \<longrightarrow>
         transfer A B X d t1 t2 t3 (s, fs) =
           (Returns (Inl (SourceNotFound A)), (s, tl (tl fs)))) \<and>
      (accounts s A \<noteq> None \<and> accounts s B = None \<longrightarrow>
         transfer A B X d t1 t2 t3 (s, fs) =
           (Returns (Inl (DestinationNotFound B)), (s, tl (tl fs)))) \<and>
      (\<forall>a b. accounts s A = Some a \<and> accounts s B = Some b \<longrightarrow>
         (currency a \<noteq> currency b \<longrightarrow>
            transfer A B X d t1 t2 t3 (s, fs) =
              (Returns (Inl CurrencyMismatch), (s, tl (tl fs)))) \<and>
         (\<forall>ba oa. currency a = currency b \<and> balance a = Some ba \<and>
              overdraft_limit a = Some oa \<and> flt (fadd ba oa) X \<longrightarrow>
            transfer A B X d t1 t2 t3 (s, fs) =
              (Returns (Inl (InsufficientFunds (fadd ba oa))), (s, tl (tl fs)))))"
    using pos by (auto simp: transfer_eq eval_nat_numeral)
  show "fle X (Finite 0) \<or>
    flt (Finite 0) X \<and>
      (accounts s A = None \<or> accounts s B = None \<or>
       (\<exists>a b. accounts s A = Some a \<and> accounts s B = Some b \<and>
          (currency a \<noteq> currency b \<or>
           (\<exists>ba oa. balance a = Some ba \<and> overdraft_limit a = Some oa \<and>
              flt (fadd ba oa) X))))
    \<longrightarrow> fst (snd (transfer A B X d t1 t2 t3 (s, fs))) = s"
    by (auto simp: transfer_eq split: option.splits)
qed

theorem transfer_precondition_order_witness:
  "transfer ''40817810123456789'' ''40817810987654321'' (Finite 0) '''' ''t1'' ''t2'' ''t3''
     (sample_store, [True]) = (Returns (Inl InvalidAmount), (sample_store, [True])) \<and>
   transfer ''1'' ''2'' (Finite 10) '''' ''t1'' ''t2'' ''t3'' (sample_store, []) =
     (Returns (Inl (SourceNotFound ''1'')), (sample_store, [])) \<and>
   transfer ''40817810123456789'' ''2'' (Finite 10) '''' ''t1'' ''t2'' ''t3'' (sample_store, []) =
     (Returns (Inl (DestinationNotFound ''2'')), (sample_store, [])) \<and>
   transfer ''40817810123456789'' ''40817810555555555'' (Finite 20000) '''' ''t1'' ''t2'' ''t3''
     (sample_store, []) = (Returns (Inl CurrencyMismatch), (sample_store, [])) \<and>
   transfer ''40817810123456789'' ''40817810987654321'' (Finite 15001) '''' ''t1'' ''t2'' ''t3''
     (sample_store, []) = (Returns (Inl (InsufficientFunds (Finite 15000))), (sample_store, [])) \<and>
   fst (snd (transfer ''40817810123456789'' ''40817810555555555'' (Finite 10) '''' ''t1'' ''t2''
     ''t3'' (sample_store, [False, True]))) = sample_store"
proof -
  let ?A = "''40817810123456789''" and ?B = "''40817810987654321''"
    and ?C = "''40817810555555555''"
  have ar: "rnd 15000 = Finite 15000" by (simp add: rnd_eval)
  have acc: "accounts sample_store ?A = Some ivanov_account"
    "accounts sample_store ?B = Some petrova_account"
    "accounts sample_store ?C = Some dollar_account"
    "accounts sample_store ''1'' = None" "accounts sample_store ''2'' = None"
    by (simp_all add: sample_store_def store_of_def)
  have col: "currency ivanov_account = ''RUB''" "currency petrova_account = ''RUB''"
    "currency dollar_account = ''USD''" "balance ivanov_account = Some (Finite 10000)"
    "overdraft_limit ivanov_account = Some (Finite 5000)"
    by (simp_all add: ivanov_account_def rub_account_def petrova_account_def
        dollar_account_def)
  have nf: "no_fault 2 []" by (simp add: eval_nat_numeral raises_def)
  have 1: "transfer ?A ?B (Finite 0) '''' ''t1'' ''t2'' ''t3'' (sample_store, [True]) =
      (Returns (Inl InvalidAmount), (sample_store, [True]))"
    using transfer_precondition_order [of "Finite 0" ?A ?B "''''" "''t1''" "''t2''" "''t3''"
        sample_store "[True]"]
    by simp
  have 2: "transfer ''1'' ''2'' (Finite 10) '''' ''t1'' ''t2'' ''t3'' (sample_store, []) =
      (Returns (Inl (SourceNotFound ''1'')), (sample_store, []))"
    using transfer_precondition_order [of "Finite 10" "''1''" "''2''" "''''" "''t1''" "''t2''"
        "''t3''" sample_store "[]"] nf acc
    by simp
  have 3: "transfer ?A ''2'' (Finite 10) '''' ''t1'' ''t2'' ''t3'' (sample_store, []) =
      (Returns (Inl (DestinationNotFound ''2'')), (sample_store, []))"
    using transfer_precondition_order [of "Finite 10" ?A "''2''" "''''" "''t1''" "''t2''"
        "''t3''" sample_store "[]"] nf acc
    by simp
  have 4: "transfer ?A ?C (Finite 20000) '''' ''t1'' ''t2'' ''t3'' (sample_store, []) =
      (Returns (Inl CurrencyMismatch), (sample_store, []))"
    using transfer_precondition_order [of "Finite 20000" ?A ?C "''''" "''t1''" "''t2''"
        "''t3''" sample_store "[]"] nf acc col
    by simp
  have 5: "transfer ?A ?B (Finite 15001) '''' ''t1'' ''t2'' ''t3'' (sample_store, []) =
      (Returns (Inl (InsufficientFunds (Finite 15000))), (sample_store, []))"
    using transfer_precondition_order [of "Finite 15001" ?A ?B "''''" "''t1''" "''t2''"
        "''t3''" sample_store "[]"] nf acc col ar
    by simp
  have 6: "fst (snd (transfer ?A ?C (Finite 10) '''' ''t1'' ''t2'' ''t3''
      (sample_store, [False, True]))) = sample_store"
    using transfer_precondition_order [of "Finite 10" ?A ?C "''''" "''t1''" "''t2''" "''t3''"
        sample_store "[False, True]"] acc col
    by simp
  from 1 2 3 4 5 6 show ?thesis by blast
qed

section \<open>Withdrawal and the available amount\<close>

text \<open>
  Claim C4 says that a withdrawal of more than the balance plus the overdraft limit
  fails with \<open>InsufficientFunds\<close>. The source compares the amount with the sum as
  Python computes it, rounded to a double: on an account with balance \<open>2 ^ 53 + 2\<close> and
  overdraft limit 1 the available amount is computed as \<open>2 ^ 53 + 4\<close>, and a
  withdrawal of \<open>2 ^ 53 + 4\<close>, more than the exact sum \<open>2 ^ 53 + 3\<close>, succeeds and
  leaves the balance \<open>- 2\<close>.
\<close>

theorem withdraw_available_counterexample:
  "accounts edge_store ''40817810123456789'' = Some (rub_account 9007199254740994 1) \<and>
   (9007199254740994 + 1 :: real) < 9007199254740996 \<and>
   fst (withdraw ''40817810123456789'' (Finite 9007199254740996) '''' ''ts''
          (edge_store, [])) = Returns (Inr ()) \<and>
   map_option balance (accounts (fst (snd (withdraw ''40817810123456789''
      (Finite 9007199254740996) '''' ''ts'' (edge_store, [])))) ''40817810123456789'') =
     Some (Some (Finite (- 2)))"
proof -
  have ar: "rnd 9007199254740995 = Finite 9007199254740996" "rnd (- 2) = Finite (- 2)"
    by (simp_all add: rnd_eval)
  show ?thesis
    by (simp add: withdraw_eq raises_def debited_def logged_def edge_store_def store_of_def
        empty_store_def rub_account_def sql_sub_def ar)
qed

text \<open>
  Claim C4, amended. \<^verbatim>\<open>withdraw\<close> tests, in this order: the amount is not
  \<open>\<le> 0\<close> (\<open>InvalidAmount\<close>), the account exists (\<open>AccountNotFound\<close>), the amount is at
  most the available amount, which is the sum of the balance and the overdraft limit
  rounded to the nearest double (\<open>InsufficientFunds\<close>, with the available amount). Each
  of these failures leaves the store as it was. A positive amount up to and including
  the available amount is withdrawn when none of the three store calls raises: the
  balance becomes the double nearest to the balance minus the amount, which is the exact
  difference whenever that is a double, and one \<^verbatim>\<open>WITHDRAWAL\<close> row is appended.
\<close>

theorem withdraw_available:
  "(fle X (Finite 0) \<longrightarrow>
      withdraw n X d ts (s, fs) = (Returns (Inl InvalidAmount), (s, fs))) \<and>
   (flt (Finite 0) X \<and> \<not> raises fs \<and> accounts s n = None \<longrightarrow>
      withdraw n X d ts (s, fs) = (Returns (Inl AccountNotFound), (s, tl fs))) \<and>
   (\<forall>a b od. flt (Finite 0) X \<and> \<not> raises fs \<and> accounts s n = Some a \<and>
        balance a = Some b \<and> overdraft_limit a = Some od \<and> flt (fadd b od) X \<longrightarrow>
      withdraw n X d ts (s, fs) =
        (Returns (Inl (InsufficientFunds (fadd b od))), (s, tl fs))) \<and>
   (\<forall>a b od. flt (Finite 0) X \<and> no_fault 3 fs \<and> accounts s n = Some a \<and>
        balance a = Some b \<and> overdraft_limit a = Some od \<and> fle X (fadd b od) \<longrightarrow>
      withdraw n X d ts (s, fs) =
        (Returns (Inr ()),
         (s\<lparr>accounts := (accounts s)(n \<mapsto> a\<lparr>balance := bind_real (fsub b X)\<rparr>),
            transactions := transactions s @
              [\<lparr>tid = transactions_seq s + 1, account_number = n,
                transaction_type = ''WITHDRAWAL'', amount = X, description = d,
                timestamp = ts\<rparr>],
            transactions_seq := transactions_seq s + 1\<rparr>,
          tl (tl (tl fs)))) \<and>
      (\<forall>x v. X = Finite x \<and> b = Finite v \<and> is_double (v - x) \<longrightarrow>
         bind_real (fsub b X) = Some (Finite (v - x))))"
proof -
  have pos: "\<not> fle X (Finite 0) \<and> X \<noteq> NaN \<and> bind_real X = Some X" if "flt (Finite 0) X"
    using that by (cases X) simp_all
  have le: "\<not> flt a X" if "fle X a" for a
    using that by (cases X; cases a) simp_all
  show ?thesis
    using pos le
    by (auto simp: withdraw_eq eval_nat_numeral debited_def logged_def sql_sub_def
        is_double_def)
qed

theorem withdraw_available_witness:
  "withdraw ''40817810123456789'' (Finite 0) '''' ''ts'' (sample_store, []) =
     (Returns (Inl InvalidAmount), (sample_store, [])) \<and>
   withdraw ''1'' (Finite 5) '''' ''ts'' (sample_store, []) =
     (Returns (Inl AccountNotFound), (sample_store, [])) \<and>
   withdraw ''40817810123456789'' (Finite 15000.5) '''' ''ts'' (sample_store, []) =
     (Returns (Inl (InsufficientFunds (Finite 15000))), (sample_store, [])) \<and>
   fst (withdraw ''40817810123456789'' (Finite 15000) '''' ''ts'' (sample_store, [])) =
     Returns (Inr ()) \<and>
   map_option balance (accounts (fst (snd (withdraw ''40817810123456789'' (Finite 15000) ''''
     ''ts'' (sample_store, [])))) ''40817810123456789'') = Some (Some (Finite (- 5000)))"
proof -
  let ?A = "''40817810123456789''"
  have ar: "rnd 15000 = Finite 15000" "rnd (- 5000) = Finite (- 5000)"
    by (simp_all add: rnd_eval)
  have acc: "accounts sample_store ?A = Some ivanov_account"
    "accounts sample_store ''1'' = None"
    by (simp_all add: sample_store_def store_of_def)
  have col: "balance ivanov_account = Some (Finite 10000)"
    "overdraft_limit ivanov_account = Some (Finite 5000)"
    by (simp_all add: ivanov_account_def rub_account_def)
  have nf: "no_fault 3 []" "\<not> raises []" by (simp_all add: eval_nat_numeral raises_def)
  have 1: "withdraw ?A (Finite 0) '''' ''ts'' (sample_store, []) =
      (Returns (Inl InvalidAmount), (sample_store, []))"
    using withdraw_available [of "Finite 0" ?A "''''" "''ts''" sample_store "[]"] by simp
  have 2: "withdraw ''1'' (Finite 5) '''' ''ts'' (sample_store, []) =
      (Returns (Inl AccountNotFound), (sample_store, []))"
    using withdraw_available [of "Finite 5" "''1''" "''''" "''ts''" sample_store "[]"] nf acc
    by simp
  have 3: "withdraw ?A (Finite 15000.5) '''' ''ts'' (sample_store, []) =
      (Returns (Inl (InsufficientFunds (Finite 15000))), (sample_store, []))"
    using withdraw_available [of "Finite 15000.5" ?A "''''" "''ts''" sample_store "[]"]
      nf acc col ar
    by simp
  have 4: "withdraw ?A (Finite 15000) '''' ''ts'' (sample_store, []) =
        (Returns (Inr ()),
         (sample_store\<lparr>accounts := (accounts sample_store)
              (?A \<mapsto> ivanov_account\<lparr>balance := bind_real (fsub (Finite 10000) (Finite 15000))\<rparr>),
            transactions := transactions sample_store @
              [\<lparr>tid = transactions_seq sample_store + 1, account_number = ?A,
                transaction_type = ''WITHDRAWAL'', amount = Finite 15000, description = '''',
                timestamp = ''ts''\<rparr>],
            transactions_seq := transactions_seq sample_store + 1\<rparr>,
          tl (tl (tl []))))"
    using withdraw_available [of "Finite 15000" ?A "''''" "''ts''" sample_store "[]"]
      nf acc col ar
    by simp
  from 1 2 3 show ?thesis
    by (simp add: 4 ar)
qed

section \<open>The overdraft invariant\<close>












section \<open>The balance and the ledger\<close>

lemma row_amounts_credited [simp]: "row_amounts ty n (credited m x s) = row_amounts ty n s"
  by (simp add: row_amounts_def)

lemma row_amounts_debited [simp]: "row_amounts ty n (debited m x s) = row_amounts ty n s"
  by (simp add: row_amounts_def)

lemma row_amounts_logged:
  "row_amounts ty n (logged m ty' x d ts s) =
     row_amounts ty n s @ (if m = n \<and> ty' = ty then [x] else [])"
  by (simp add: row_amounts_def)

lemma run_op_ledger:
  assumes "run_op p (s, fs) = (Returns (Inr ()), w')" and "accounts s n = Some a"
  shows "\<exists>a'. accounts (fst w') n = Some a' \<and>
    balance a' = replay n (balance a) [p] \<and>
    row_amounts ''DEPOSIT'' n (fst w') = row_amounts ''DEPOSIT'' n s @ deposits_of n [p] \<and>
    row_amounts ''WITHDRAWAL'' n (fst w') =
      row_amounts ''WITHDRAWAL'' n s @ withdrawals_of n [p]"
proof (cases p)
  case (Deposit m x d ts)
  with assms(1) have "deposit m x d ts (s, fs) = (Inr (), w')"
    by (auto split: prod.splits)
  from deposit_success [OF this] assms(2) show ?thesis
    by (auto simp: Deposit accounts_credited row_amounts_logged)
next
  case (Withdraw m x d ts)
  with assms(1) have "withdraw m x d ts (s, fs) = (Returns (Inr ()), w')" by simp
  from withdraw_success [OF this] assms(2) show ?thesis
    by (auto simp: Withdraw accounts_debited row_amounts_logged)
qed

lemma replay_Cons: "replay n v (p # ps) = replay n (replay n v [p]) ps"
  by (cases p) simp_all

lemma deposits_of_Cons: "deposits_of n (p # ps) = deposits_of n [p] @ deposits_of n ps"
  by (cases p) simp_all

lemma withdrawals_of_Cons:
  "withdrawals_of n (p # ps) = withdrawals_of n [p] @ withdrawals_of n ps"
  by (cases p) simp_all

lemma run_ops_ledger:
  assumes "run_ops ops w = Some w'" and "accounts (fst w) n = Some a"
  shows "\<exists>a'. accounts (fst w') n = Some a' \<and>
    balance a' = replay n (balance a) ops \<and>
    row_amounts ''DEPOSIT'' n (fst w') =
      row_amounts ''DEPOSIT'' n (fst w) @ deposits_of n ops \<and>
    row_amounts ''WITHDRAWAL'' n (fst w') =
      row_amounts ''WITHDRAWAL'' n (fst w) @ withdrawals_of n ops"
  using assms
proof (induction ops arbitrary: w a)
  case Nil
  then show ?case by simp
next
  case (Cons p ps)
  obtain s fs where w: "w = (s, fs)" by (cases w)
  from Cons.prems(1) obtain w1 where
    p: "run_op p (s, fs) = (Returns (Inr ()), w1)" and ps: "run_ops ps w1 = Some w'"
    by (auto simp: w split: prod.splits sum.splits outcome.splits)
  from run_op_ledger [OF p, of n a] Cons.prems(2) obtain a1 where
    a1: "accounts (fst w1) n = Some a1"
      "balance a1 = replay n (balance a) [p]"
      "row_amounts ''DEPOSIT'' n (fst w1) = row_amounts ''DEPOSIT'' n s @ deposits_of n [p]"
      "row_amounts ''WITHDRAWAL'' n (fst w1) =
         row_amounts ''WITHDRAWAL'' n s @ withdrawals_of n [p]"
    by (auto simp: w)
  from Cons.IH [OF ps a1(1)] obtain a' where
    a': "accounts (fst w') n = Some a'" "balance a' = replay n (balance a1) ps"
      "row_amounts ''DEPOSIT'' n (fst w') =
         row_amounts ''DEPOSIT'' n (fst w1) @ deposits_of n ps"
      "row_amounts ''WITHDRAWAL'' n (fst w') =
         row_amounts ''WITHDRAWAL'' n (fst w1) @ withdrawals_of n ps"
    by blast
  have "balance a' = replay n (balance a) (p # ps)"
    by (simp only: a'(2) a1(2) replay_Cons [of n "balance a" p ps])
  moreover have "row_amounts ''DEPOSIT'' n (fst w') =
      row_amounts ''DEPOSIT'' n (fst w) @ deposits_of n (p # ps)"
    by (simp only: a'(3) a1(3) deposits_of_Cons [of n p ps] w fst_conv append_assoc)
  moreover have "row_amounts ''WITHDRAWAL'' n (fst w') =
      row_amounts ''WITHDRAWAL'' n (fst w) @ withdrawals_of n (p # ps)"
    by (simp only: a'(4) a1(4) withdrawals_of_Cons [of n p ps] w fst_conv append_assoc)
  ultimately show ?case using a'(1) by blast
qed

lemma replay_exact:
  assumes "exact_run n b ops"
  shows "replay n (Some (Finite b)) ops =
    Some (Finite (b + total (deposits_of n ops) - total (withdrawals_of n ops)))"
  using assms
proof (induction ops arbitrary: b)
  case Nil
  then show ?case by (simp add: total_def)
next
  case (Cons p ps)
  show ?case
  proof (cases p)
    case (Deposit m x d ts)
    show ?thesis
    proof (cases "m = n")
      case True
      with Cons.prems Deposit obtain y where
        y: "x = Finite y" "is_double (b + y)" "exact_run n (b + y) ps"
        by (cases x) simp_all
      from Cons.IH [OF y(3)] y(1,2) True show ?thesis
        by (simp add: Deposit sql_add_def is_double_def total_def algebra_simps)
    next
      case False
      with Cons.prems Deposit have "exact_run n b ps" by simp
      from Cons.IH [OF this] False show ?thesis by (simp add: Deposit)
    qed
  next
    case (Withdraw m x d ts)
    show ?thesis
    proof (cases "m = n")
      case True
      with Cons.prems Withdraw obtain y where
        y: "x = Finite y" "is_double (b - y)" "exact_run n (b - y) ps"
        by (cases x) simp_all
      from Cons.IH [OF y(3)] y(1,2) True show ?thesis
        by (simp add: Withdraw sql_sub_def is_double_def total_def algebra_simps)
    next
      case False
      with Cons.prems Withdraw have "exact_run n b ps" by simp
      from Cons.IH [OF this] False show ?thesis by (simp add: Withdraw)
    qed
  qed
qed

lemma foreign_key_no_rows:
  assumes "foreign_key s" and "accounts s n = None"
  shows "row_amounts ty n s = []"
  using assms by (auto simp: foreign_key_def row_amounts_def filter_empty_conv)

text \<open>
  The foreign key holds in the empty store and is kept by every method, whatever its
  outcome: it holds in every store that the methods can produce.
\<close>

lemma foreign_key_empty: "foreign_key empty_store"
  by (simp add: foreign_key_def empty_store_def)

lemma foreign_key_credited:
  assumes "foreign_key s"
  shows "foreign_key (credited n x s)"
  using assms by (fastforce simp: foreign_key_def accounts_credited)

lemma foreign_key_debited:
  assumes "foreign_key s"
  shows "foreign_key (debited n x s)"
  using assms by (fastforce simp: foreign_key_def accounts_debited)

lemma foreign_key_logged:
  assumes "foreign_key s" and "accounts s n \<noteq> None"
  shows "foreign_key (logged n ty x d ts s)"
  using assms by (auto simp: foreign_key_def)

lemma foreign_key_deposit:
  assumes "foreign_key s"
  shows "foreign_key (fst (snd (deposit n x d ts (s, fs))))"
  using assms
  by (simp add: deposit_eq foreign_key_credited foreign_key_logged accounts_credited)

lemma foreign_key_withdraw:
  assumes "foreign_key s"
  shows "foreign_key (fst (snd (withdraw n x d ts (s, fs))))"
  using assms
  by (simp add: withdraw_eq foreign_key_debited foreign_key_logged accounts_debited
      split: option.splits)

lemma foreign_key_transfer:
  assumes "foreign_key s"
  shows "foreign_key (fst (snd (transfer A B x d t1 t2 t3 (s, fs))))"
proof (rule transfer_preserves [where P = foreign_key])
  show "foreign_key s" by (rule assms)
qed (rule foreign_key_withdraw foreign_key_deposit, assumption)+

lemma foreign_key_create_account:
  assumes "foreign_key s"
  shows "foreign_key (fst (snd (create_account r u ty cur od now (s, fs))))"
  using assms by (simp add: create_account_eq foreign_key_def)

lemma foreign_key_register_user:
  assumes "foreign_key s"
  shows "foreign_key (fst (snd (register_user H d (s, fs))))"
  using assms by (simp add: register_user_eq foreign_key_def)

text \<open>
  Claim C6 says that after successful deposits and withdrawals the balance is the sum
  of the deposited amounts minus the sum of the withdrawn amounts, which is also the
  sum of the \<^verbatim>\<open>DEPOSIT\<close> rows minus the sum of the \<^verbatim>\<open>WITHDRAWAL\<close>
  rows. Each update rounds: on a new account, a deposit of \<open>2 ^ 53\<close> followed by a
  deposit of 1, both successful, leaves the balance \<open>2 ^ 53\<close>, while the deposited
  amounts and the two \<^verbatim>\<open>DEPOSIT\<close> rows sum to \<open>2 ^ 53 + 1\<close>.
\<close>

theorem balance_is_ledger_sum_counterexample:
  "create_account 12345678 1 ''Checking'' ''RUB'' (Finite 0) ''t0'' (empty_store, []) =
     (Inr ''4081781012345678'',
      snd (create_account 12345678 1 ''Checking'' ''RUB'' (Finite 0) ''t0'' (empty_store, []))) \<and>
   run_ops [Deposit ''4081781012345678'' (Finite 9007199254740992) '''' ''t1'',
            Deposit ''4081781012345678'' (Finite 1) '''' ''t2'']
     (snd (create_account 12345678 1 ''Checking'' ''RUB'' (Finite 0) ''t0'' (empty_store, []))) \<noteq>
     None \<and>
   map_option balance (accounts (fst (the (run_ops
        [Deposit ''4081781012345678'' (Finite 9007199254740992) '''' ''t1'',
         Deposit ''4081781012345678'' (Finite 1) '''' ''t2'']
        (snd (create_account 12345678 1 ''Checking'' ''RUB'' (Finite 0) ''t0''
           (empty_store, []))))))
      ''4081781012345678'') = Some (Some (Finite 9007199254740992)) \<and>
   total (deposits_of ''4081781012345678''
        [Deposit ''4081781012345678'' (Finite 9007199254740992) '''' ''t1'',
         Deposit ''4081781012345678'' (Finite 1) '''' ''t2'']) -
   total (withdrawals_of ''4081781012345678''
        [Deposit ''4081781012345678'' (Finite 9007199254740992) '''' ''t1'',
         Deposit ''4081781012345678'' (Finite 1) '''' ''t2'']) = 9007199254740993 \<and>
   total (row_amounts ''DEPOSIT'' ''4081781012345678'' (fst (the (run_ops
        [Deposit ''4081781012345678'' (Finite 9007199254740992) '''' ''t1'',
         Deposit ''4081781012345678'' (Finite 1) '''' ''t2'']
        (snd (create_account 12345678 1 ''Checking'' ''RUB'' (Finite 0) ''t0''
           (empty_store, []))))))) -
   total (row_amounts ''WITHDRAWAL'' ''4081781012345678'' (fst (the (run_ops
        [Deposit ''4081781012345678'' (Finite 9007199254740992) '''' ''t1'',
         Deposit ''4081781012345678'' (Finite 1) '''' ''t2'']
        (snd (create_account 12345678 1 ''Checking'' ''RUB'' (Finite 0) ''t0''
           (empty_store, []))))))) = 9007199254740993"
proof -
  have g: "generate_account_number 12345678 = ''4081781012345678''"
    by (simp add: generate_account_number_def str_nat.simps digits_def)
  have ar: "rnd 9007199254740992 = Finite 9007199254740992"
    "rnd 9007199254740993 = Finite 9007199254740992"
    by (simp_all add: rnd_eval)
  show ?thesis
    by (simp add: create_account_eq g raises_def empty_store_def deposit_eq credited_def
        logged_def sql_add_def ar total_def row_amounts_def)
qed

text \<open>
  Claim C6, amended. In a store that satisfies the foreign key of the schema, an
  account is created and then any sequence of deposits and withdrawals runs, each of
  them successful (on this account or on others). The balance of the account is then
  the result of adding the deposited amounts and subtracting the withdrawn amounts in
  the order of the operations, from 0, each step rounded to the nearest double; the
  \<^verbatim>\<open>DEPOSIT\<close> rows of the account hold exactly the deposited amounts and its
  \<^verbatim>\<open>WITHDRAWAL\<close> rows exactly the withdrawn amounts, in order. When the amounts
  are finite and no step rounds, the balance is the sum of the deposited amounts minus
  the sum of the withdrawn amounts, which is the sum of the \<^verbatim>\<open>DEPOSIT\<close> rows
  minus the sum of the \<^verbatim>\<open>WITHDRAWAL\<close> rows.
\<close>

theorem balance_is_ledger_sum:
  assumes "foreign_key s"
    and "create_account r u ty cur od now (s, fs) = (Inr n, w1)"
    and "run_ops ops w1 = Some w2"
  shows "\<exists>a. accounts (fst w2) n = Some a \<and>
    balance a = replay n (Some (Finite 0)) ops \<and>
    row_amounts ''DEPOSIT'' n (fst w2) = deposits_of n ops \<and>
    row_amounts ''WITHDRAWAL'' n (fst w2) = withdrawals_of n ops \<and>
    (exact_run n 0 ops \<longrightarrow>
       balance a = Some (Finite (total (deposits_of n ops) - total (withdrawals_of n ops))) \<and>
       balance a = Some (Finite (total (row_amounts ''DEPOSIT'' n (fst w2)) -
                                 total (row_amounts ''WITHDRAWAL'' n (fst w2)))))"
proof -
  let ?a = "\<lparr>user_id = u, account_type = ty, currency = cur, balance = Some (Finite 0),
            overdraft_limit = bind_real od, created_date = now\<rparr>"
  from assms(2) have fresh: "accounts s n = None"
    and w1: "fst w1 = s\<lparr>accounts := (accounts s)(n \<mapsto> ?a)\<rparr>"
    by (auto simp: create_account_eq split: if_splits)
  have a: "accounts (fst w1) n = Some ?a" by (simp add: w1)
  have rows: "row_amounts ty' n (fst w1) = []" for ty'
    using foreign_key_no_rows [OF assms(1) fresh, of ty'] by (simp add: w1 row_amounts_def)
  from run_ops_ledger [OF assms(3) a] obtain a' where
    a': "accounts (fst w2) n = Some a'" "balance a' = replay n (Some (Finite 0)) ops"
      "row_amounts ''DEPOSIT'' n (fst w2) = deposits_of n ops"
      "row_amounts ''WITHDRAWAL'' n (fst w2) = withdrawals_of n ops"
    by (auto simp: rows)
  have "balance a' = Some (Finite (total (deposits_of n ops) - total (withdrawals_of n ops)))"
    if "exact_run n 0 ops"
    using replay_exact [OF that] a'(2) by simp
  with a' show ?thesis by simp
qed

theorem balance_is_ledger_sum_witness:
  "run_ops [Deposit ''4081781012345678'' (Finite 10000) ''first'' ''t1'',
            Withdraw ''4081781012345678'' (Finite 12000) '''' ''t2'',
            Deposit ''4081781012345678'' (Finite 500) '''' ''t3'']
     (snd (create_account 12345678 1 ''Checking'' ''RUB'' (Finite 5000) ''t0''
        (empty_store, []))) \<noteq> None \<and>
   (\<exists>a. accounts (fst (the (run_ops [Deposit ''4081781012345678'' (Finite 10000) ''first'' ''t1'',
            Withdraw ''4081781012345678'' (Finite 12000) '''' ''t2'',
            Deposit ''4081781012345678'' (Finite 500) '''' ''t3'']
        (snd (create_account 12345678 1 ''Checking'' ''RUB'' (Finite 5000) ''t0''
           (empty_store, []))))))
        ''4081781012345678'' = Some a \<and> balance a = Some (Finite (- 1500)))"
proof -
  let ?n = "''4081781012345678''"
  let ?ops = "[Deposit ?n (Finite 10000) ''first'' ''t1'', Withdraw ?n (Finite 12000) '''' ''t2'',
               Deposit ?n (Finite 500) '''' ''t3'']"
  let ?c = "create_account 12345678 1 ''Checking'' ''RUB'' (Finite 5000) ''t0'' (empty_store, [])"
  have g: "generate_account_number 12345678 = ?n"
    by (simp add: generate_account_number_def str_nat.simps digits_def)
  have ar: "rnd 10000 = Finite 10000" "rnd 15000 = Finite 15000"
    "rnd (- 2000) = Finite (- 2000)" "rnd (- 1500) = Finite (- 1500)"
    by (simp_all add: rnd_eval)
  have fk: "foreign_key empty_store" by (simp add: foreign_key_def empty_store_def)
  have c: "?c = (Inr ?n, snd ?c)"
    by (simp add: create_account_eq g raises_def empty_store_def)
  have r: "run_ops ?ops (snd ?c) \<noteq> None"
    by (simp add: create_account_eq g raises_def empty_store_def deposit_eq withdraw_eq
        credited_def debited_def logged_def sql_add_def sql_sub_def ar)
  then have r': "run_ops ?ops (snd ?c) = Some (the (run_ops ?ops (snd ?c)))" by simp
  have e: "exact_run ?n 0 ?ops"
    by (simp add: is_double_def ar)
  have d: "total (deposits_of ?n ?ops) - total (withdrawals_of ?n ?ops) = - 1500"
    by (simp add: total_def)
  from balance_is_ledger_sum [OF fk c r'] e obtain a where
    a: "accounts (fst (the (run_ops ?ops (snd ?c)))) ?n = Some a"
      "balance a = Some (Finite (total (deposits_of ?n ?ops) - total (withdrawals_of ?n ?ops)))"
    by blast
  from a(2) d have "balance a = Some (Finite (- 1500))" by (simp only:)
  with r a(1) show ?thesis by blast
qed

section \<open>Authentication\<close>



section \<open>Registration\<close>

text \<open>
  Claim C8. When a user with the username of the registration data exists,
  \<^verbatim>\<open>register_user\<close> leaves the store as it was, and its result is
  \<open>UsernameTaken\<close> when the lookup is answered. After a successful registration, a
  second registration with the same username fails with \<open>UsernameTaken\<close>, and exactly
  one row has that username. A successful registration appends one row, whose password
  column is the hash of the password; the password enters the result and the store
  through its hash only.
\<close>

theorem register_username_taken:
  "((\<exists>u \<in> set (users s). username u = username d) \<longrightarrow>
      fst (snd (register_user H d (s, fs))) = s \<and>
      (\<not> raises fs \<longrightarrow> register_user H d (s, fs) = (Inl UsernameTaken, (s, tl fs)))) \<and>
   (\<forall>i w1. register_user H d (s, fs) = (Inr i, w1) \<and> username d2 = username d \<and>
        \<not> raises (snd w1) \<longrightarrow>
      register_user H d2 w1 = (Inl UsernameTaken, (fst w1, tl (snd w1))) \<and>
      length (filter (\<lambda>u. username u = username d)
        (users (fst (snd (register_user H d2 w1))))) = 1) \<and>
   (\<forall>i w1. register_user H d (s, fs) = (Inr i, w1) \<longrightarrow>
      users (fst w1) = users s @ [user_row d (H (password d)) i] \<and>
      password_hash (last (users (fst w1))) = H (password d)) \<and>
   (H p' = H (password d) \<longrightarrow>
      register_user H (d\<lparr>password := p'\<rparr>) (s, fs) = register_user H d (s, fs))"
proof (intro conjI allI impI)
  assume h: "\<exists>u \<in> set (users s). username u = username d"
  then have f: "find (\<lambda>u. username u = username d) (users s) \<noteq> None"
    by (auto simp: find_None_iff)
  show "fst (snd (register_user H d (s, fs))) = s"
    using f by (simp add: register_user_eq)
  show "register_user H d (s, fs) = (Inl UsernameTaken, (s, tl fs))" if "\<not> raises fs"
    using f that by (simp add: register_user_eq)
next
  fix i w1
  assume h: "register_user H d (s, fs) = (Inr i, w1) \<and> username d2 = username d \<and>
        \<not> raises (snd w1)"
  then have none: "filter (\<lambda>u. username u = username d) (users s) = []"
    and w1: "w1 = (s\<lparr>users := users s @ [user_row d (H (password d)) (users_seq s + 1)],
               users_seq := users_seq s + 1\<rparr>, tl (tl fs))"
    by (auto simp: register_user_eq find_None_filter split: if_splits)
  have f: "find (\<lambda>u. username u = username d2) (users (fst w1)) \<noteq> None"
    using h by (auto simp: w1 find_None_iff)
  have r: "register_user H d2 w1 = (Inl UsernameTaken, (fst w1, tl (snd w1)))"
    using f h register_user_eq [of H d2 "fst w1" "snd w1"] by simp
  show "register_user H d2 w1 = (Inl UsernameTaken, (fst w1, tl (snd w1)))" by (rule r)
  show "length (filter (\<lambda>u. username u = username d)
        (users (fst (snd (register_user H d2 w1))))) = 1"
    by (simp add: r) (simp add: w1 none)
next
  fix i w1 assume h: "register_user H d (s, fs) = (Inr i, w1)"
  then show "users (fst w1) = users s @ [user_row d (H (password d)) i]"
    by (auto simp: register_user_eq split: if_splits)
  then show "password_hash (last (users (fst w1))) = H (password d)"
    by simp
next
  assume "H p' = H (password d)"
  then show "register_user H (d\<lparr>password := p'\<rparr>) (s, fs) = register_user H d (s, fs)"
    by (simp add: register_user_eq user_row_def)
qed

theorem register_username_taken_witness:
  "register_user sample_hash (ivanov_data\<lparr>password := ''other''\<rparr>) (users_store, []) =
     (Inl UsernameTaken, (users_store, [])) \<and>
   fst (register_user sample_hash ivanov_data (empty_store, [])) = Inr 1 \<and>
   fst (register_user sample_hash (ivanov_data\<lparr>first_name := ''Petr''\<rparr>)
     (snd (register_user sample_hash ivanov_data (empty_store, [])))) = Inl UsernameTaken \<and>
   length (filter (\<lambda>u. username u = ''ivanov'')
     (users (fst (snd (register_user sample_hash (ivanov_data\<lparr>first_name := ''Petr''\<rparr>)
        (snd (register_user sample_hash ivanov_data (empty_store, [])))))))) = 1 \<and>
   map password_hash (users (fst (snd (register_user sample_hash ivanov_data
     (empty_store, []))))) = [''#321drowssap'']"
proof -
  let ?d1 = "ivanov_data\<lparr>password := ''other''\<rparr>"
  let ?d2 = "ivanov_data\<lparr>first_name := ''Petr''\<rparr>"
  let ?r = "register_user sample_hash ivanov_data (empty_store, [])"
  have n: "username ivanov_data = ''ivanov''" "password ivanov_data = ''password123''"
    by (simp_all add: ivanov_data_def)
  have e: "\<exists>u \<in> set (users users_store). username u = username ?d1"
    by (simp add: users_store_def)
  have nr: "\<not> raises []" by (simp add: raises_def)
  note T1 = register_username_taken [of users_store ?d1 sample_hash "[]", THEN conjunct1]
  from T1 e nr have "register_user sample_hash ?d1 (users_store, []) =
     (Inl UsernameTaken, (users_store, tl []))"
    by blast
  then have 1: "register_user sample_hash ?d1 (users_store, []) =
     (Inl UsernameTaken, (users_store, []))"
    by simp
  have r: "?r = (Inr 1, snd ?r)"
    by (simp add: register_user_eq raises_def empty_store_def)
  have r2: "username ?d2 = username ivanov_data" by simp
  have r3: "\<not> raises (snd (snd ?r))"
    by (simp add: register_user_eq raises_def empty_store_def)
  note T2 = register_username_taken [of empty_store ivanov_data sample_hash "[]" ?d2,
      THEN conjunct2, THEN conjunct1, rule_format, of 1 "snd ?r"]
  from T2 r r2 r3 have 2: "register_user sample_hash ?d2 (snd ?r) =
      (Inl UsernameTaken, (fst (snd ?r), tl (snd (snd ?r))))"
    and 3: "length (filter (\<lambda>u. username u = username ivanov_data)
        (users (fst (snd (register_user sample_hash ?d2 (snd ?r)))))) = 1"
    by blast+
  note T3 = register_username_taken [of empty_store ivanov_data sample_hash "[]",
      THEN conjunct2, THEN conjunct2, THEN conjunct1, rule_format, of 1 "snd ?r"]
  from T3 r have "users (fst (snd ?r)) =
      users empty_store @ [user_row ivanov_data (sample_hash (password ivanov_data)) 1]"
    by blast
  then have 4: "map password_hash (users (fst (snd ?r))) = [''#321drowssap'']"
    by (simp add: empty_store_def n sample_hash_def)
  have 5: "fst ?r = Inr 1" by (subst r) simp
  have 6: "fst (register_user sample_hash ?d2 (snd ?r)) = Inl UsernameTaken"
    by (subst 2) simp
  from 3 have 7: "length (filter (\<lambda>u. username u = ''ivanov'')
        (users (fst (snd (register_user sample_hash ?d2 (snd ?r)))))) = 1"
    by (simp only: n)
  from 1 5 6 7 4 show ?thesis by blast
qed

section \<open>Transfer of an account to itself\<close>

text \<open>
  Claim C9 says that a transfer of an account to itself leaves its balance unchanged.
  The withdrawal and the deposit each round: on an account with balance 0.9 and no
  overdraft, a transfer of 0.2 to itself succeeds and leaves the balance
  0.8999999999999999, the double below 0.9.
\<close>

theorem self_transfer_balance_counterexample:
  "fst (transfer ''40817810123456789'' ''40817810123456789'' (Finite d0_2) '''' ''t1'' ''t2''
          ''t3'' (dime_store, [])) = Returns (Inr ()) \<and>
   map_option balance (accounts dime_store ''40817810123456789'') = Some (Some (Finite d0_9)) \<and>
   map_option balance (accounts (fst (snd (transfer ''40817810123456789''
      ''40817810123456789'' (Finite d0_2) '''' ''t1'' ''t2'' ''t3'' (dime_store, []))))
      ''40817810123456789'') = Some (Some (Finite (d0_9 - 1 / 2 ^ 53))) \<and>
   map_option balance (accounts (fst (snd (transfer ''40817810123456789''
      ''40817810123456789'' (Finite d0_2) '''' ''t1'' ''t2'' ''t3'' (dime_store, []))))
      ''40817810123456789'') \<noteq> map_option balance (accounts dime_store ''40817810123456789'')"
proof -
  have ar: "rnd (d0_9 + 0) = Finite d0_9"
    "rnd (d0_9 - d0_2) = Finite (3152519739159347 / 2 ^ 52)"
    "rnd (3152519739159347 / 2 ^ 52 + d0_2) = Finite (d0_9 - 1 / 2 ^ 53)"
    "d0_2 \<le> d0_9" "\<not> d0_2 \<le> 0" "d0_9 - 1 / 2 ^ 53 \<noteq> d0_9"
    by (simp_all add: rnd_eval d0_9_def d0_2_def)
  show ?thesis
    using ar
    by (simp add: transfer_eq withdraw_eq deposit_eq raises_def credited_def debited_def
        logged_def dime_store_def store_of_def empty_store_def rub_account_def
        sql_add_def sql_sub_def)
qed

text \<open>
  Claim C9, amended. A transfer with the same account \<open>A\<close> as source and destination
  is not refused: for \<open>0 < X \<le> balance A + overdraft_limit A\<close> (as Python computes them
  on doubles) it succeeds when none of its eight store calls raises. Every such
  successful transfer leaves every other account as it was and appends exactly two rows
  on \<open>A\<close>, a \<^verbatim>\<open>WITHDRAWAL\<close> of \<open>X\<close> and a \<^verbatim>\<open>DEPOSIT\<close> of \<open>X\<close>.
  The balance of \<open>A\<close> is the result of subtracting \<open>X\<close> and adding it again, each
  rounded to the nearest double: it is the balance before the transfer whenever the
  difference \<open>balance - X\<close> is a double.
\<close>

theorem self_transfer:
  assumes "accounts s A = Some a"
  shows "(balance a = Some ba \<and> overdraft_limit a = Some oa \<and>
      flt (Finite 0) X \<and> fle X (fadd ba oa) \<and> no_fault 8 fs \<longrightarrow>
        fst (transfer A A X d t1 t2 t3 (s, fs)) = Returns (Inr ())) \<and>
    (\<forall>w'. transfer A A X d t1 t2 t3 (s, fs) = (Returns (Inr ()), w') \<longrightarrow>
       accounts (fst w') =
         (accounts s)(A \<mapsto> a\<lparr>balance := sql_add (sql_sub (balance a) (Some X)) (Some X)\<rparr>) \<and>
       (\<forall>x v. X = Finite x \<and> balance a = Some (Finite v) \<and> is_double v \<and>
            is_double (v - x) \<longrightarrow> accounts (fst w') = accounts s) \<and>
       transactions (fst w') = transactions s @
         [\<lparr>tid = transactions_seq s + 1, account_number = A,
           transaction_type = ''WITHDRAWAL'', amount = X,
           description = transfer_to_text @ A @ ''. '' @ d, timestamp = t1\<rparr>,
          \<lparr>tid = transactions_seq s + 2, account_number = A,
           transaction_type = ''DEPOSIT'', amount = X,
           description = transfer_from_text @ A @ ''. '' @ d, timestamp = t2\<rparr>])"
proof (intro conjI allI impI)
  assume "balance a = Some ba \<and> overdraft_limit a = Some oa \<and>
      flt (Finite 0) X \<and> fle X (fadd ba oa) \<and> no_fault 8 fs"
  with assms show "fst (transfer A A X d t1 t2 t3 (s, fs)) = Returns (Inr ())"
    by (simp add: transfer_succeeds)
next
  fix w' assume t: "transfer A A X d t1 t2 t3 (s, fs) = (Returns (Inr ()), w')"
  from transfer_success [OF t] have X: "bind_real X = Some X" and
    w: "w' = (logged A ''DEPOSIT'' X (transfer_from_text @ A @ ''. '' @ d) t2
                 (credited A X
                   (logged A ''WITHDRAWAL'' X (transfer_to_text @ A @ ''. '' @ d) t1
                     (debited A X s))),
               tl (tl (tl (tl (tl (tl (tl (tl fs))))))))"
    by (simp_all add: bind_real_def)
  show acc: "accounts (fst w') =
         (accounts s)(A \<mapsto> a\<lparr>balance := sql_add (sql_sub (balance a) (Some X)) (Some X)\<rparr>)"
    using assms by (auto simp: w X accounts_credited accounts_debited fun_eq_iff)
  show "transactions (fst w') = transactions s @
         [\<lparr>tid = transactions_seq s + 1, account_number = A,
           transaction_type = ''WITHDRAWAL'', amount = X,
           description = transfer_to_text @ A @ ''. '' @ d, timestamp = t1\<rparr>,
          \<lparr>tid = transactions_seq s + 2, account_number = A,
           transaction_type = ''DEPOSIT'', amount = X,
           description = transfer_from_text @ A @ ''. '' @ d, timestamp = t2\<rparr>]"
    by (simp add: w)
  show "accounts (fst w') = accounts s"
    if "X = Finite x \<and> balance a = Some (Finite v) \<and> is_double v \<and> is_double (v - x)"
    for x v
  proof -
    from that have "sql_add (sql_sub (balance a) (Some X)) (Some X) = balance a"
      by (simp add: sql_add_def sql_sub_def is_double_def)
    with acc assms show ?thesis by (simp add: fun_upd_idem)
  qed
qed

theorem self_transfer_witness:
  "fst (transfer ''40817810123456789'' ''40817810123456789'' (Finite 15000) '''' ''t1'' ''t2''
          ''t3'' (sample_store, [])) = Returns (Inr ()) \<and>
   accounts (fst (snd (transfer ''40817810123456789'' ''40817810123456789'' (Finite 15000) ''''
      ''t1'' ''t2'' ''t3'' (sample_store, [])))) = accounts sample_store \<and>
   map (\<lambda>t. (account_number t, transaction_type t, amount t))
     (transactions (fst (snd (transfer ''40817810123456789'' ''40817810123456789''
      (Finite 15000) '''' ''t1'' ''t2'' ''t3'' (sample_store, []))))) =
     [(''40817810123456789'', ''WITHDRAWAL'', Finite 15000),
      (''40817810123456789'', ''DEPOSIT'', Finite 15000)]"
proof -
  let ?A = "''40817810123456789''"
  let ?r = "transfer ?A ?A (Finite 15000) '''' ''t1'' ''t2'' ''t3'' (sample_store, [])"
  have ar: "rnd 15000 = Finite 15000" "rnd 10000 = Finite 10000" "rnd (- 5000) = Finite (- 5000)"
    by (simp_all add: rnd_eval)
  have h: "accounts sample_store ?A = Some ivanov_account"
    by (simp add: sample_store_def store_of_def)
  have g: "balance ivanov_account = Some (Finite 10000) \<and>
      overdraft_limit ivanov_account = Some (Finite 5000) \<and>
      flt (Finite 0) (Finite 15000) \<and> fle (Finite 15000) (fadd (Finite 10000) (Finite 5000)) \<and>
      no_fault 8 []"
    by (simp add: ivanov_account_def rub_account_def ar eval_nat_numeral raises_def)
  have e: "Finite 15000 = Finite 15000 \<and> balance ivanov_account = Some (Finite 10000) \<and>
      is_double 10000 \<and> is_double (10000 - 15000)"
    by (simp add: ivanov_account_def rub_account_def is_double_def ar)
  note T = self_transfer [OF h, of "Finite 10000" "Finite 5000" "Finite 15000" "[]"
      "''''" "''t1''" "''t2''" "''t3''"]
  from T g have ok: "fst ?r = Returns (Inr ())" by blast
  then have eq: "?r = (Returns (Inr ()), snd ?r)" by (metis prod.collapse)
  from T eq have
    ex: "\<forall>x v. Finite 15000 = Finite x \<and> balance ivanov_account = Some (Finite v) \<and>
            is_double v \<and> is_double (v - x) \<longrightarrow> accounts (fst (snd ?r)) = accounts sample_store"
    and tr: "transactions (fst (snd ?r)) = transactions sample_store @
         [\<lparr>tid = transactions_seq sample_store + 1, account_number = ?A,
           transaction_type = ''WITHDRAWAL'', amount = Finite 15000,
           description = transfer_to_text @ ?A @ ''. '' @ '''', timestamp = ''t1''\<rparr>,
          \<lparr>tid = transactions_seq sample_store + 2, account_number = ?A,
           transaction_type = ''DEPOSIT'', amount = Finite 15000,
           description = transfer_from_text @ ?A @ ''. '' @ '''', timestamp = ''t2''\<rparr>]"
    by blast+
  from ex e have acc: "accounts (fst (snd ?r)) = accounts sample_store" by blast
  have tz: "transactions sample_store = []" "transactions_seq sample_store = 0"
    by (simp_all add: sample_store_def store_of_def empty_store_def)
  from ok show ?thesis
    by (simp add: acc tr tz)
qed

section \<open>Account creation\<close>



end
